theory Spec2Isabelle
  imports Main "HOL-Library.Word"
begin

section \<open>Offscreen rendering context factories of agus-maps-flutter\<close>

text \<open>
  A shallow embedding of \<^verbatim>\<open>AgusEglContextFactory\<close> (Linux, EGL),
  \<^verbatim>\<open>AgusWglContextFactory\<close> (Windows, WGL with Direct3D 11 interop) and of the two
  \<^verbatim>\<open>notifyFlutterFrameReady\<close> functions of the plugin glue.

  Conventions. A C++ \<^verbatim>\<open>int\<close> is a HOL \<^typ>\<open>int\<close>; the model covers the executions
  without signed overflow. A handle, a pointer or an OpenGL object name is a \<^typ>\<open>nat\<close>, with
  \<open>0\<close> for the null handle (\<^verbatim>\<open>EGL_NO_DISPLAY\<close>, \<^verbatim>\<open>nullptr\<close>, name 0). Every
  call that makes a context current or that talks to OpenGL appends an entry to the
  \<open>gpu_log\<close> of the factory, so that "this function does not touch the GPU" is the statement
  that the log does not grow. What the driver answers (a handle, a status, the pixels read
  back) is an argument of the function that asks. The display density, a \<^verbatim>\<open>float\<close> that
  the factory only stores and prints, is left out.
\<close>

subsection \<open>Bytes and buffers\<close>

type_synonym byte = "8 word"

text \<open>
  \<^verbatim>\<open>std::memcpy(dst + d, src + s, n)\<close> on buffers held as lists. The C++ call is defined
  only when both ranges lie inside their buffers; there the list keeps its length.
\<close>

definition memcpy :: "'a list \<Rightarrow> nat \<Rightarrow> 'a list \<Rightarrow> nat \<Rightarrow> nat \<Rightarrow> 'a list" where
  "memcpy dst d src s n = take d dst @ take n (drop s src) @ drop (d + n) dst"

text \<open>\<^verbatim>\<open>std::vector<uint8_t>::resize(n)\<close>: truncate, or pad with zero bytes.\<close>

definition vector_resize :: "nat \<Rightarrow> byte list \<Rightarrow> byte list" where
  "vector_resize n v = take n v @ replicate (n - length v) 0"


subsection \<open>The GPU log\<close>

datatype gpu_call =
    EglMakeCurrent nat nat nat
  | WglMakeCurrent nat nat
  | GLFunctionsInit
  | GlGenFramebuffers nat
  | GlDeleteFramebuffers nat
  | GlBindFramebuffer nat
  | GlBindReadFramebuffer nat
  | GlBindDrawFramebuffer nat
  | GlGenTextures nat
  | GlDeleteTextures nat
  | GlBindTexture nat
  | GlTexImage2D int int
  | GlTexParameteri
  | GlFramebufferTexture2D nat
  | GlGenRenderbuffers nat
  | GlDeleteRenderbuffers nat
  | GlBindRenderbuffer nat
  | GlRenderbufferStorage int int
  | GlFramebufferRenderbuffer nat
  | GlDrawBuffers
  | GlReadBuffer
  | GlCheckFramebufferStatus
  | GlClearColor
  | GlClear
  | GlViewport int int
  | GlScissor int int
  | GlGetViewport
  | GlFinish
  | GlReadPixels int int
  | GlGetError
  | GlBlitFramebuffer int int
  | DrawOverlayText nat int int
  | ExternalFramebufferBind nat
  | WglDXOpenDeviceNV
  | WglDXCloseDeviceNV nat
  | WglDXRegisterObjectNV nat
  | WglDXUnregisterObjectNV nat
  | WglDXLockObjectsNV nat
  | WglDXUnlockObjectsNV nat

definition GL_FRAMEBUFFER_COMPLETE :: nat where
  "GL_FRAMEBUFFER_COMPLETE = 0x8CD5"

definition GL_NO_ERROR :: nat where
  "GL_NO_ERROR = 0"

definition EGL_NO_DISPLAY :: nat where "EGL_NO_DISPLAY = 0"
definition EGL_NO_SURFACE :: nat where "EGL_NO_SURFACE = 0"
definition EGL_NO_CONTEXT :: nat where "EGL_NO_CONTEXT = 0"
definition EGL_PBUFFER_BIT :: int where "EGL_PBUFFER_BIT = 1"

subsection \<open>The Linux glue that receives the frame callback\<close>

text \<open>
  The globals of \<^verbatim>\<open>agus_maps_flutter_linux.cpp\<close> that \<^verbatim>\<open>notifyFlutterFrameReady\<close>
  reads and writes. \<open>frame_ready_calls\<close> counts the invocations of
  \<^verbatim>\<open>g_frameReadyCallback\<close>, that is the notifications delivered to the host;
  \<open>make_frame_active_calls\<close> counts \<^verbatim>\<open>Framework::MakeFrameActive\<close>.
\<close>

record linux_glue =
  g_keepAliveCounter :: int
  g_framework :: bool
  g_frameReadyCallback :: bool
  frame_ready_calls :: nat
  make_frame_active_calls :: nat

definition linux_notifyFlutterFrameReady :: "linux_glue \<Rightarrow> linux_glue" where
  "linux_notifyFlutterFrameReady g =
     (let g1 =
        (if g_keepAliveCounter g > 0 then
           (let g' = g\<lparr>g_keepAliveCounter := g_keepAliveCounter g - 1\<rparr> in
            if g_framework g'
            then g'\<lparr>make_frame_active_calls := Suc (make_frame_active_calls g')\<rparr>
            else g')
         else g)
      in if g_frameReadyCallback g1
         then g1\<lparr>frame_ready_calls := Suc (frame_ready_calls g1)\<rparr>
         else g1)"

subsection \<open>The EGL factory: data\<close>

record egl_context =
  ctx_display :: nat
  ctx_surface :: nat
  ctx_context :: nat
  ctx_isDrawContext :: bool
  ctx_surfaceless :: bool
  ctx_presentAvailable :: bool

record factory =
  m_display :: nat
  m_drawEglContext :: nat
  m_uploadEglContext :: nat
  m_drawSurface :: nat
  m_uploadSurface :: nat
  m_framebuffer :: nat
  m_renderTexture :: nat
  m_depthStencilBuffer :: nat
  m_drawContext :: "egl_context option"
  m_uploadContext :: "egl_context option"
  m_width :: int
  m_height :: int
  m_renderedWidth :: int
  m_renderedHeight :: int
  m_initialized :: bool
  m_presentAvailable :: bool
  m_useSurfaceless :: bool
  m_glFunctionsInitialized :: bool
  m_framebufferDeferred :: bool
  m_frameCallback :: "(linux_glue \<Rightarrow> linux_glue) option"
  m_keepAliveCallback :: "(linux_glue \<Rightarrow> linux_glue) option"
  m_pixelBuffer :: "byte list"
  m_pendingResize :: bool
  m_pendingWidth :: int
  m_pendingHeight :: int
  gpu_log :: "gpu_call list"

text \<open>The default member initialisers of \<^verbatim>\<open>AgusEglContextFactory.hpp\<close>.\<close>

definition factory_default :: factory where
  "factory_default =
     \<lparr> m_display = EGL_NO_DISPLAY, m_drawEglContext = EGL_NO_CONTEXT,
       m_uploadEglContext = EGL_NO_CONTEXT, m_drawSurface = EGL_NO_SURFACE,
       m_uploadSurface = EGL_NO_SURFACE, m_framebuffer = 0, m_renderTexture = 0,
       m_depthStencilBuffer = 0, m_drawContext = None, m_uploadContext = None,
       m_width = 0, m_height = 0, m_renderedWidth = 0, m_renderedHeight = 0,
       m_initialized = False, m_presentAvailable = True, m_useSurfaceless = False,
       m_glFunctionsInitialized = False, m_framebufferDeferred = False,
       m_frameCallback = None, m_keepAliveCallback = None, m_pixelBuffer = [],
       m_pendingResize = False, m_pendingWidth = 0, m_pendingHeight = 0, gpu_log = [] \<rparr>"

definition gpu :: "gpu_call list \<Rightarrow> factory \<Rightarrow> factory" where
  "gpu cs s = s\<lparr>gpu_log := gpu_log s @ cs\<rparr>"

subsection \<open>The EGL factory: initialisation\<close>

text \<open>
  What EGL answers during \<^verbatim>\<open>InitializeEGL\<close>. \<open>eglChooseConfig\<close> maps the surface
  type, depth size and stencil size of an attempt to the call's result and the value left in
  \<^verbatim>\<open>numConfigs\<close>; \<open>eglChooseConfig_minimal\<close> is the last-resort call.
\<close>

record egl_driver =
  hasPlatformBase :: bool
  hasSurfaceless :: bool
  hasDeviceExt :: bool
  eglGetDisplay_default :: nat
  eglGetPlatformDisplayEXT_proc :: bool
  eglGetPlatformDisplayEXT_result :: nat
  eglInitialize_ok :: bool
  hasSurfacelessContext :: bool
  eglBindAPI_ok :: bool
  eglChooseConfig :: "int \<Rightarrow> int \<Rightarrow> int \<Rightarrow> bool \<times> int"
  eglChooseConfig_minimal :: "bool \<times> int"
  eglCreatePbufferSurface_draw :: nat
  eglCreatePbufferSurface_upload :: nat
  eglCreateContext_draw :: nat
  eglCreateContext_upload :: nat

definition select_display :: "egl_driver \<Rightarrow> factory \<Rightarrow> factory" where
  "select_display drv s =
     (let s1 = s\<lparr>m_display := eglGetDisplay_default drv\<rparr> in
      if m_display s1 \<noteq> EGL_NO_DISPLAY then s1\<lparr>m_useSurfaceless := False\<rparr>
      else if hasPlatformBase drv \<and> hasSurfaceless drv then
        (if eglGetPlatformDisplayEXT_proc drv then
           (let s2 = s1\<lparr>m_display := eglGetPlatformDisplayEXT_result drv\<rparr> in
            if m_display s2 \<noteq> EGL_NO_DISPLAY then s2\<lparr>m_useSurfaceless := True\<rparr> else s2)
         else s1)
      else s1)"

text \<open>
  The loop over the four \<^verbatim>\<open>ConfigAttempt\<close>s: it stops at the first attempt that
  succeeds with a positive \<^verbatim>\<open>numConfigs\<close> and returns the value of \<^verbatim>\<open>numConfigs\<close>.
\<close>

fun config_attempts :: "egl_driver \<Rightarrow> (int \<times> int \<times> int) list \<Rightarrow> int \<Rightarrow> int" where
  "config_attempts drv [] numConfigs = numConfigs"
| "config_attempts drv ((surfaceType, depthSize, stencilSize) # rest) numConfigs =
     (case eglChooseConfig drv surfaceType depthSize stencilSize of
        (ok, n) \<Rightarrow> if ok \<and> n > 0 then n else config_attempts drv rest n)"

definition choose_config :: "egl_driver \<Rightarrow> factory \<Rightarrow> bool" where
  "choose_config drv s =
     (let st = (if m_useSurfaceless s then 0 else EGL_PBUFFER_BIT);
          numConfigs = config_attempts drv [(st, 24, 8), (st, 16, 8), (st, 16, 0), (st, 0, 0)] 0
      in if numConfigs = 0 then
           (case eglChooseConfig_minimal drv of
              (ok, n) \<Rightarrow> if \<not> ok \<or> n = 0 then False else True)
         else True)"

definition create_surfaces :: "egl_driver \<Rightarrow> factory \<Rightarrow> bool \<times> factory" where
  "create_surfaces drv s =
     (if \<not> m_useSurfaceless s then
        (let s1 = s\<lparr>m_drawSurface := eglCreatePbufferSurface_draw drv\<rparr> in
         if m_drawSurface s1 = EGL_NO_SURFACE then
           (if hasSurfacelessContext drv then (True, s1\<lparr>m_useSurfaceless := True\<rparr>)
            else (False, s1))
         else
           (let s2 = s1\<lparr>m_uploadSurface := eglCreatePbufferSurface_upload drv\<rparr> in
            if m_uploadSurface s2 = EGL_NO_SURFACE then
              (let s3 = s2\<lparr>m_drawSurface := EGL_NO_SURFACE\<rparr> in
               if hasSurfacelessContext drv then (True, s3\<lparr>m_useSurfaceless := True\<rparr>)
               else (False, s3))
            else (True, s2)))
      else (True, s))"

definition create_contexts :: "egl_driver \<Rightarrow> factory \<Rightarrow> bool \<times> factory" where
  "create_contexts drv s =
     (let s1 = s\<lparr>m_drawEglContext := eglCreateContext_draw drv\<rparr> in
      if m_drawEglContext s1 = EGL_NO_CONTEXT then (False, s1)
      else
        (let s2 = s1\<lparr>m_uploadEglContext := eglCreateContext_upload drv\<rparr> in
         if m_uploadEglContext s2 = EGL_NO_CONTEXT
         then (False, s2\<lparr>m_drawEglContext := EGL_NO_CONTEXT\<rparr>)
         else (True, s2\<lparr>m_glFunctionsInitialized := False\<rparr>)))"

definition InitializeEGL :: "egl_driver \<Rightarrow> factory \<Rightarrow> bool \<times> factory" where
  "InitializeEGL drv s =
     (let s1 = select_display drv s in
      if m_display s1 = EGL_NO_DISPLAY then (False, s1)
      else if \<not> eglInitialize_ok drv then (False, s1)
      else
        (let s2 = (if m_useSurfaceless s1 \<and> \<not> hasSurfacelessContext drv
                   then s1\<lparr>m_useSurfaceless := False\<rparr> else s1) in
         if \<not> eglBindAPI_ok drv then (False, s2)
         else if \<not> choose_config drv s2 then (False, s2)
         else
           (case create_surfaces drv s2 of
              (ok, s3) \<Rightarrow> if \<not> ok then (False, s3) else create_contexts drv s3)))"

text \<open>
  The constructor. It publishes the requested size as the rendered size before it
  initialises EGL, makes no context current, and defers the framebuffer.
\<close>

definition AgusEglContextFactory :: "int \<Rightarrow> int \<Rightarrow> egl_driver \<Rightarrow> factory" where
  "AgusEglContextFactory width height drv =
     (let s0 = factory_default\<lparr>m_width := width, m_height := height\<rparr>;
          s1 = s0\<lparr>m_renderedWidth := width, m_renderedHeight := height\<rparr>
      in case InitializeEGL drv s1 of
           (ok, s2) \<Rightarrow>
             if \<not> ok then s2
             else s2\<lparr>m_framebufferDeferred := True, m_initialized := True\<rparr>)"

definition IsValid :: "factory \<Rightarrow> bool" where
  "IsValid s = m_initialized s"

definition GetRenderedWidth :: "factory \<Rightarrow> int" where
  "GetRenderedWidth s = m_renderedWidth s"

definition GetRenderedHeight :: "factory \<Rightarrow> int" where
  "GetRenderedHeight s = m_renderedHeight s"

subsection \<open>The EGL factory: framebuffer and contexts\<close>

text \<open>
  What the driver answers during \<^verbatim>\<open>CreateFramebuffer\<close>: whether the context could
  be made current, the object names it generates and the framebuffer status.
\<close>

record fb_driver =
  fb_makeCurrent_ok :: bool
  fb_gen_framebuffer :: nat
  fb_gen_texture :: nat
  fb_gen_renderbuffer :: nat
  fb_status :: nat

definition CreateFramebuffer :: "int \<Rightarrow> int \<Rightarrow> fb_driver \<Rightarrow> factory \<Rightarrow> bool \<times> factory" where
  "CreateFramebuffer width height drv s =
     (if width \<le> 0 \<or> height \<le> 0 then (False, s)
      else
        (let drawSurf = (if m_useSurfaceless s then EGL_NO_SURFACE else m_drawSurface s);
             readSurf = (if m_useSurfaceless s then EGL_NO_SURFACE else m_drawSurface s);
             s1 = gpu [EglMakeCurrent drawSurf readSurf (m_drawEglContext s)] s
         in if \<not> fb_makeCurrent_ok drv then (False, s1)
            else
              (let s2 = (if \<not> m_glFunctionsInitialized s1
                         then (gpu [GLFunctionsInit] s1)\<lparr>m_glFunctionsInitialized := True\<rparr>
                         else s1);
                   s3 = (gpu [GlGenFramebuffers (fb_gen_framebuffer drv),
                              GlBindFramebuffer (fb_gen_framebuffer drv)] s2)
                          \<lparr>m_framebuffer := fb_gen_framebuffer drv\<rparr>;
                   s4 = (gpu [GlGenTextures (fb_gen_texture drv),
                              GlBindTexture (fb_gen_texture drv),
                              GlTexImage2D width height,
                              GlTexParameteri, GlTexParameteri, GlTexParameteri, GlTexParameteri,
                              GlFramebufferTexture2D (fb_gen_texture drv)] s3)
                          \<lparr>m_renderTexture := fb_gen_texture drv\<rparr>;
                   s5 = (gpu [GlGenRenderbuffers (fb_gen_renderbuffer drv),
                              GlBindRenderbuffer (fb_gen_renderbuffer drv),
                              GlRenderbufferStorage width height,
                              GlFramebufferRenderbuffer (fb_gen_renderbuffer drv),
                              GlCheckFramebufferStatus] s4)
                          \<lparr>m_depthStencilBuffer := fb_gen_renderbuffer drv\<rparr>
               in if fb_status drv \<noteq> GL_FRAMEBUFFER_COMPLETE
                  then (False, gpu [EglMakeCurrent EGL_NO_SURFACE EGL_NO_SURFACE EGL_NO_CONTEXT] s5)
                  else
                    (let s6 = gpu [GlClearColor, GlClear] s5;
                         s7 = s6\<lparr>m_renderedWidth := width, m_renderedHeight := height\<rparr>
                     in (True, gpu [EglMakeCurrent EGL_NO_SURFACE EGL_NO_SURFACE EGL_NO_CONTEXT] s7)))))"

definition GetDrawContext :: "fb_driver \<Rightarrow> factory \<Rightarrow> egl_context option \<times> factory" where
  "GetDrawContext drv s =
     (let created =
        (if m_framebufferDeferred s \<and> m_framebuffer s = 0 then
           (case CreateFramebuffer (m_width s) (m_height s) drv s of
              (ok, s1) \<Rightarrow>
                if \<not> ok then (False, s1\<lparr>m_initialized := False\<rparr>)
                else (True, s1\<lparr>m_framebufferDeferred := False\<rparr>))
         else (True, s))
      in case created of
           (ok, s2) \<Rightarrow>
             if \<not> ok then (None, s2)
             else
               (let s3 =
                  (if m_drawContext s2 = None \<and> m_drawEglContext s2 \<noteq> EGL_NO_CONTEXT
                   then s2\<lparr>m_drawContext := Some
                          \<lparr> ctx_display = m_display s2, ctx_surface = m_drawSurface s2,
                            ctx_context = m_drawEglContext s2, ctx_isDrawContext = True,
                            ctx_surfaceless = m_useSurfaceless s2,
                            ctx_presentAvailable = True \<rparr>\<rparr>
                   else s2)
                in (m_drawContext s3, s3)))"

definition GetResourcesUploadContext :: "factory \<Rightarrow> egl_context option \<times> factory" where
  "GetResourcesUploadContext s =
     (let s1 =
        (if m_uploadContext s = None \<and> m_uploadEglContext s \<noteq> EGL_NO_CONTEXT
         then s\<lparr>m_uploadContext := Some
                \<lparr> ctx_display = m_display s, ctx_surface = m_uploadSurface s,
                  ctx_context = m_uploadEglContext s, ctx_isDrawContext = False,
                  ctx_surfaceless = m_useSurfaceless s,
                  ctx_presentAvailable = True \<rparr>\<rparr>
         else s)
      in (m_uploadContext s1, s1))"

subsection \<open>The EGL factory: deferred resize\<close>

definition SetSurfaceSize :: "int \<Rightarrow> int \<Rightarrow> factory \<Rightarrow> factory" where
  "SetSurfaceSize width height s =
     (if width \<le> 0 \<or> height \<le> 0 then s
      else if width = m_width s \<and> height = m_height s then s
      else s\<lparr>m_pendingWidth := width, m_pendingHeight := height, m_pendingResize := True\<rparr>)"

text \<open>
  What the driver answers during \<^verbatim>\<open>Present\<close>: the framebuffer status after a resize,
  the bytes \<^verbatim>\<open>glReadPixels\<close> delivers and the value of \<^verbatim>\<open>glGetError\<close> after it.
\<close>

record present_driver =
  resize_status :: nat
  readPixels_data :: "byte list"
  readPixels_error :: nat

text \<open>
  \<^verbatim>\<open>ApplyPendingResize\<close> reallocates in place, re-attaches, checks the status, and
  whatever the status is (the two branches only log) goes on to set viewport, scissor and
  the four size fields.
\<close>

definition ApplyPendingResize :: "present_driver \<Rightarrow> factory \<Rightarrow> factory" where
  "ApplyPendingResize drv s =
     (let width = m_pendingWidth s;
          height = m_pendingHeight s;
          s1 = gpu [GlBindTexture (m_renderTexture s), GlTexImage2D width height, GlBindTexture 0,
                    GlBindRenderbuffer (m_depthStencilBuffer s),
                    GlRenderbufferStorage width height, GlBindRenderbuffer 0,
                    GlBindFramebuffer (m_framebuffer s),
                    GlFramebufferTexture2D (m_renderTexture s),
                    GlFramebufferRenderbuffer (m_depthStencilBuffer s),
                    GlCheckFramebufferStatus] s;
          s2 = (if resize_status drv \<noteq> GL_FRAMEBUFFER_COMPLETE then s1 else s1);
          s3 = gpu [GlViewport width height, GlScissor width height] s2
      in s3\<lparr>m_width := width, m_height := height,
             m_renderedWidth := width, m_renderedHeight := height\<rparr>)"

definition CheckPendingResize :: "present_driver \<Rightarrow> factory \<Rightarrow> factory" where
  "CheckPendingResize drv s =
     (if \<not> m_pendingResize s then s
      else
        (let width = m_pendingWidth s;
             height = m_pendingHeight s;
             s1 = s\<lparr>m_pendingResize := False\<rparr>
         in if width \<le> 0 \<or> height \<le> 0 then s1
            else if width = m_width s1 \<and> height = m_height s1 then s1
            else ApplyPendingResize drv s1))"

subsection \<open>The EGL factory: frame capture\<close>

definition OnFrameReady :: "factory \<Rightarrow> linux_glue \<Rightarrow> linux_glue" where
  "OnFrameReady s g = (case m_frameCallback s of None \<Rightarrow> g | Some cb \<Rightarrow> cb g)"

definition RequestActiveFrame :: "factory \<Rightarrow> linux_glue \<Rightarrow> linux_glue" where
  "RequestActiveFrame s g = (case m_keepAliveCallback s of None \<Rightarrow> g | Some cb \<Rightarrow> cb g)"

text \<open>
  The loop \<^verbatim>\<open>for (int y = 0; y < height; ++y)\<close> of \<^verbatim>\<open>CaptureFramePixels\<close>: row
  \<open>height - 1 - y\<close> of the readback is copied to row \<open>y\<close> of the staging buffer.
\<close>

function flip_loop :: "int \<Rightarrow> int \<Rightarrow> int \<Rightarrow> byte list \<Rightarrow> byte list \<Rightarrow> byte list" where
  "flip_loop y height rowSize tempBuffer pixelBuffer =
     (if y < height then
        (let srcRow = height - 1 - y;
             dstRow = y
         in flip_loop (y + 1) height rowSize tempBuffer
              (memcpy pixelBuffer (nat (dstRow * rowSize)) tempBuffer (nat (srcRow * rowSize))
                 (nat rowSize)))
      else pixelBuffer)"
  by pat_completeness auto
termination
  by (relation "measure (\<lambda>(y, height, rowSize, tempBuffer, pixelBuffer). nat (height - y))") auto

declare flip_loop.simps [simp del]

text \<open>
  The temporary buffer has \<open>expectedSize\<close> zero bytes; \<^verbatim>\<open>glReadPixels\<close> writes what the
  driver delivers into it. When \<^verbatim>\<open>glGetError\<close> reports an error the function returns
  before it takes the lock of the staging buffer.
\<close>

definition glReadPixels :: "present_driver \<Rightarrow> int \<Rightarrow> byte list" where
  "glReadPixels drv expectedSize = vector_resize (nat expectedSize) (readPixels_data drv)"

definition CaptureFramePixels :: "present_driver \<Rightarrow> factory \<Rightarrow> factory" where
  "CaptureFramePixels drv s =
     (let width = m_renderedWidth s;
          height = m_renderedHeight s
      in if width \<le> 0 \<or> height \<le> 0 then s
         else
           (let expectedSize = width * height * 4;
                s1 = gpu [GlBindFramebuffer (m_framebuffer s)] s;
                tempBuffer = glReadPixels drv expectedSize;
                s2 = gpu [GlReadPixels width height, GlGetError] s1
            in if readPixels_error drv \<noteq> GL_NO_ERROR then s2
               else
                 (let resized = vector_resize (nat expectedSize) (m_pixelBuffer s2);
                      rowSize = width * 4
                  in s2\<lparr>m_pixelBuffer := flip_loop 0 height rowSize tempBuffer resized\<rparr>)))"

text \<open>\<^verbatim>\<open>static_cast<int>\<close> of a \<^verbatim>\<open>size_t\<close>: the low 32 bits, read as two's complement.\<close>

definition size_to_int :: "nat \<Rightarrow> int" where
  "size_to_int n = sint (word_of_nat n :: 32 word)"

text \<open>
  The destination is \<open>None\<close> for a null pointer and otherwise the bytes the pointer
  addresses; the result is the return value and the destination afterwards. The function
  has no access to the GPU log: it reads \<open>m_pixelBuffer\<close> only.
\<close>

definition CopyToPixelBuffer :: "factory \<Rightarrow> byte list option \<Rightarrow> int \<Rightarrow> bool \<times> byte list option" where
  "CopyToPixelBuffer s buffer bufferSize =
     (case buffer of
        None \<Rightarrow> (False, None)
      | Some dst \<Rightarrow>
          if bufferSize \<le> 0 then (False, Some dst)
          else if m_pixelBuffer s = [] then (False, Some dst)
          else
            (let copySize = min bufferSize (size_to_int (length (m_pixelBuffer s)))
             in (True, Some (memcpy dst 0 (m_pixelBuffer s) 0 (nat copySize)))))"

subsection \<open>The EGL context wrapper\<close>

definition MakeCurrent :: "egl_context \<Rightarrow> bool \<Rightarrow> factory \<Rightarrow> factory" where
  "MakeCurrent ctx makeCurrent_ok s =
     (if ctx_context ctx \<noteq> EGL_NO_CONTEXT then
        (let readSurface = (if ctx_surfaceless ctx then EGL_NO_SURFACE else ctx_surface ctx);
             drawSurface = (if ctx_surfaceless ctx then EGL_NO_SURFACE else ctx_surface ctx);
             s1 = gpu [EglMakeCurrent drawSurface readSurface (ctx_context ctx)] s
         in if \<not> makeCurrent_ok then s1
            else if ctx_isDrawContext ctx then gpu [GlBindFramebuffer (m_framebuffer s1)] s1
            else s1)
      else s)"

definition DoneCurrent :: "egl_context \<Rightarrow> factory \<Rightarrow> factory" where
  "DoneCurrent ctx s = gpu [EglMakeCurrent EGL_NO_SURFACE EGL_NO_SURFACE EGL_NO_CONTEXT] s"

definition SetFramebuffer :: "egl_context \<Rightarrow> nat option \<Rightarrow> factory \<Rightarrow> factory" where
  "SetFramebuffer ctx framebuffer s =
     (case framebuffer of
        Some fb \<Rightarrow> gpu [ExternalFramebufferBind fb] s
      | None \<Rightarrow> gpu [GlBindFramebuffer (m_framebuffer s)] s)"

text \<open>
  \<^verbatim>\<open>AgusEglContext::Present\<close>. The wrapper's \<^verbatim>\<open>m_factory\<close> is the factory that
  created it and is never null.
\<close>

definition Present :: "egl_context \<Rightarrow> present_driver \<Rightarrow> factory \<times> linux_glue \<Rightarrow> factory \<times> linux_glue" where
  "Present ctx drv w =
     (case w of
        (s, g) \<Rightarrow>
          if \<not> ctx_presentAvailable ctx then (s, g)
          else
            (let s1 = (if ctx_isDrawContext ctx then CheckPendingResize drv s else s);
                 s2 = gpu [GlFinish] s1
             in if ctx_isDrawContext ctx
                then (let s3 = CaptureFramePixels drv s2 in (s3, OnFrameReady s3 g))
                else (s2, g)))"

subsection \<open>Entry points of the EGL factory and its contexts\<close>

text \<open>
  One constructor per entry point that the plugin, the renderer or the host can call, with
  the driver's answers as arguments. The flag of a context operation says whether it is
  called on the draw context (\<open>True\<close>) or on the upload context; an operation on a context
  that was never created cannot be called and leaves everything as it is.
\<close>

datatype egl_op =
    OpGetDrawContext fb_driver
  | OpGetResourcesUploadContext
  | OpSetSurfaceSize int int
  | OpSetFrameCallback "(linux_glue \<Rightarrow> linux_glue) option"
  | OpSetKeepAliveCallback "(linux_glue \<Rightarrow> linux_glue) option"
  | OpRequestActiveFrame
  | OpFactorySetPresentAvailable bool
  | OpCopyToPixelBuffer "byte list option" int
  | OpMakeCurrent bool bool
  | OpDoneCurrent bool
  | OpSetFramebuffer bool "nat option"
  | OpSetRenderingEnabled bool bool bool
  | OpSetPresentAvailable bool bool
  | OpPresent bool present_driver

definition context_of :: "bool \<Rightarrow> factory \<Rightarrow> egl_context option" where
  "context_of draw s = (if draw then m_drawContext s else m_uploadContext s)"

definition set_context :: "bool \<Rightarrow> egl_context \<Rightarrow> factory \<Rightarrow> factory" where
  "set_context draw ctx s =
     (if draw then s\<lparr>m_drawContext := Some ctx\<rparr> else s\<lparr>m_uploadContext := Some ctx\<rparr>)"

fun step :: "egl_op \<Rightarrow> factory \<times> linux_glue \<Rightarrow> factory \<times> linux_glue" where
  "step (OpGetDrawContext drv) (s, g) = (snd (GetDrawContext drv s), g)"
| "step OpGetResourcesUploadContext (s, g) = (snd (GetResourcesUploadContext s), g)"
| "step (OpSetSurfaceSize width height) (s, g) = (SetSurfaceSize width height s, g)"
| "step (OpSetFrameCallback cb) (s, g) = (s\<lparr>m_frameCallback := cb\<rparr>, g)"
| "step (OpSetKeepAliveCallback cb) (s, g) = (s\<lparr>m_keepAliveCallback := cb\<rparr>, g)"
| "step OpRequestActiveFrame (s, g) = (s, RequestActiveFrame s g)"
| "step (OpFactorySetPresentAvailable available) (s, g) = (s\<lparr>m_presentAvailable := available\<rparr>, g)"
| "step (OpCopyToPixelBuffer buffer bufferSize) (s, g) = (s, g)"
| "step (OpMakeCurrent draw ok) (s, g) =
     (case context_of draw s of None \<Rightarrow> (s, g) | Some ctx \<Rightarrow> (MakeCurrent ctx ok s, g))"
| "step (OpDoneCurrent draw) (s, g) =
     (case context_of draw s of None \<Rightarrow> (s, g) | Some ctx \<Rightarrow> (DoneCurrent ctx s, g))"
| "step (OpSetFramebuffer draw framebuffer) (s, g) =
     (case context_of draw s of None \<Rightarrow> (s, g) | Some ctx \<Rightarrow> (SetFramebuffer ctx framebuffer s, g))"
| "step (OpSetRenderingEnabled draw enabled ok) (s, g) =
     (case context_of draw s of
        None \<Rightarrow> (s, g)
      | Some ctx \<Rightarrow> (if enabled then MakeCurrent ctx ok s else DoneCurrent ctx s, g))"
| "step (OpSetPresentAvailable draw available) (s, g) =
     (case context_of draw s of
        None \<Rightarrow> (s, g)
      | Some ctx \<Rightarrow> (set_context draw (ctx\<lparr>ctx_presentAvailable := available\<rparr>) s, g))"
| "step (OpPresent draw drv) (s, g) =
     (case context_of draw s of None \<Rightarrow> (s, g) | Some ctx \<Rightarrow> Present ctx drv (s, g))"

definition run :: "egl_op list \<Rightarrow> factory \<times> linux_glue \<Rightarrow> factory \<times> linux_glue" where
  "run ops w = foldl (\<lambda>w' op. step op w') w ops"

fun is_Present :: "egl_op \<Rightarrow> bool" where
  "is_Present (OpPresent draw drv) = True"
| "is_Present _ = False"

fun is_SetSurfaceSize :: "egl_op \<Rightarrow> bool" where
  "is_SetSurfaceSize (OpSetSurfaceSize width height) = True"
| "is_SetSurfaceSize _ = False"

subsection \<open>The Android glue: rate-limited frame notification\<close>

text \<open>
  The globals of \<^verbatim>\<open>agus_maps_flutter.cpp\<close> that \<^verbatim>\<open>notifyFlutterFrameReady\<close> reads
  and writes. Time is the tick count of \<^verbatim>\<open>std::chrono::steady_clock\<close> in nanoseconds and
  is an argument of the call; \<open>notifyFrameReady_calls\<close> counts the invocations of the Java
  method, that is the notifications delivered to the host.
\<close>

record android_glue =
  g_lastFrameNotification :: int
  g_frameNotificationPending :: bool
  g_javaVM :: bool
  g_pluginInstance :: bool
  g_notifyFrameReadyMethod :: bool
  notifyFrameReady_calls :: nat

record jni_driver =
  GetEnv_status :: int
  GetEnv_env :: bool
  AttachCurrentThread_ok :: bool
  AttachCurrentThread_env :: bool

definition kMinFrameInterval :: int where
  "kMinFrameInterval = 16 * 1000000"

definition JNI_EDETACHED :: int where
  "JNI_EDETACHED = - 2"

definition CallVoidMethod :: "bool \<Rightarrow> android_glue \<Rightarrow> android_glue" where
  "CallVoidMethod env g =
     (if env then g\<lparr>notifyFrameReady_calls := Suc (notifyFrameReady_calls g)\<rparr> else g)"

definition android_notifyFlutterFrameReady :: "int \<Rightarrow> jni_driver \<Rightarrow> android_glue \<Rightarrow> android_glue" where
  "android_notifyFlutterFrameReady now jni g =
     (let elapsed = now - g_lastFrameNotification g in
      if elapsed < kMinFrameInterval then g
      else if g_frameNotificationPending g then g
      else
        (let g1 = g\<lparr>g_frameNotificationPending := True\<rparr>;
             g2 = g1\<lparr>g_lastFrameNotification := now\<rparr>
         in if g_javaVM g2 \<and> g_pluginInstance g2 \<and> g_notifyFrameReadyMethod g2 then
              (if GetEnv_status jni = JNI_EDETACHED then
                 (if AttachCurrentThread_ok jni
                  then (CallVoidMethod (AttachCurrentThread_env jni) g2)
                         \<lparr>g_frameNotificationPending := False\<rparr>
                  else g2\<lparr>g_frameNotificationPending := False\<rparr>)
               else (CallVoidMethod (GetEnv_env jni) g2)\<lparr>g_frameNotificationPending := False\<rparr>)
            else g2\<lparr>g_frameNotificationPending := False\<rparr>))"

text \<open>A burst: the calls one after the other, each with its time and the answers of JNI.\<close>

fun android_burst :: "(int \<times> jni_driver) list \<Rightarrow> android_glue \<Rightarrow> android_glue" where
  "android_burst [] g = g"
| "android_burst ((now, jni) # calls) g = android_burst calls (android_notifyFlutterFrameReady now jni g)"

subsection \<open>The WGL factory: data\<close>

record wgl_procs =
  wglDXOpenDeviceNV :: bool
  wglDXCloseDeviceNV :: bool
  wglDXRegisterObjectNV :: bool
  wglDXUnregisterObjectNV :: bool
  wglDXLockObjectsNV :: bool
  wglDXUnlockObjectsNV :: bool

record wgl_context =
  wc_hdc :: nat
  wc_glrc :: nat
  wc_isDraw :: bool
  wc_initialFrameCount :: int

text \<open>
  The fields of \<^verbatim>\<open>AgusWglContextFactory\<close>. A \<^verbatim>\<open>ComPtr\<close> is a flag that says whether
  it holds an object. \<open>w_frameCallback\<close> says whether a frame callback is set and
  \<open>w_frame_callbacks\<close> counts its invocations (the Windows glue is not part of the sources);
  likewise for the keep-alive callback.
\<close>

record wgl_factory =
  w_hiddenWindow :: nat
  w_hdc :: nat
  w_drawGlrc :: nat
  w_uploadGlrc :: nat
  w_framebuffer :: nat
  w_renderTexture :: nat
  w_depthBuffer :: nat
  w_lastBoundFramebuffer :: nat
  w_d3dDevice :: bool
  w_d3dContext :: bool
  w_sharedTexture :: bool
  w_stagingTexture :: bool
  w_sharedHandle :: nat
  w_keyedMutex :: bool
  w_useKeyedMutex :: bool
  w_interopDevice :: nat
  w_interopObject :: nat
  w_interopTexture :: nat
  w_interopRenderbuffer :: nat
  w_interopFramebuffer :: nat
  w_procs :: wgl_procs
  w_drawContext :: "wgl_context option"
  w_uploadContext :: "wgl_context option"
  w_width :: int
  w_height :: int
  w_renderedWidth :: int
  w_renderedHeight :: int
  w_frameCallback :: bool
  w_keepAliveCallback :: bool
  w_frame_callbacks :: nat
  w_keepAlive_callbacks :: nat
  w_overlayEnabled :: bool
  w_gpu_log :: "gpu_call list"

definition no_procs :: wgl_procs where
  "no_procs =
     \<lparr> wglDXOpenDeviceNV = False, wglDXCloseDeviceNV = False, wglDXRegisterObjectNV = False,
       wglDXUnregisterObjectNV = False, wglDXLockObjectsNV = False,
       wglDXUnlockObjectsNV = False \<rparr>"

definition wgl_factory_default :: wgl_factory where
  "wgl_factory_default =
     \<lparr> w_hiddenWindow = 0, w_hdc = 0, w_drawGlrc = 0, w_uploadGlrc = 0, w_framebuffer = 0,
       w_renderTexture = 0, w_depthBuffer = 0, w_lastBoundFramebuffer = 0,
       w_d3dDevice = False, w_d3dContext = False, w_sharedTexture = False,
       w_stagingTexture = False, w_sharedHandle = 0, w_keyedMutex = False,
       w_useKeyedMutex = False, w_interopDevice = 0, w_interopObject = 0,
       w_interopTexture = 0, w_interopRenderbuffer = 0, w_interopFramebuffer = 0,
       w_procs = no_procs, w_drawContext = None, w_uploadContext = None,
       w_width = 0, w_height = 0, w_renderedWidth = 0, w_renderedHeight = 0,
       w_frameCallback = False, w_keepAliveCallback = False, w_frame_callbacks = 0,
       w_keepAlive_callbacks = 0, w_overlayEnabled = True, w_gpu_log = [] \<rparr>"

definition wgpu :: "gpu_call list \<Rightarrow> wgl_factory \<Rightarrow> wgl_factory" where
  "wgpu cs s = s\<lparr>w_gpu_log := w_gpu_log s @ cs\<rparr>"

definition ShouldEnableKeyedMutex :: "string option \<Rightarrow> bool" where
  "ShouldEnableKeyedMutex env =
     (case env of
        None \<Rightarrow> False
      | Some v \<Rightarrow> v = ''1'' \<or> v = ''true'' \<or> v = ''TRUE'')"

definition ShouldEnableOverlay :: "string option \<Rightarrow> bool" where
  "ShouldEnableOverlay env =
     (case env of
        None \<Rightarrow> True
      | Some v \<Rightarrow> (if v = ''0'' \<or> v = ''false'' \<or> v = ''FALSE'' then False else True))"

subsection \<open>The WGL factory: initialisation\<close>

record wgl_init_driver =
  RegisterWindowClass_ok :: bool
  CreateWindowExW_result :: nat
  GetDC_result :: nat
  ChoosePixelFormat_result :: int
  SetPixelFormat_ok :: bool
  wglCreateContext_draw :: nat
  wglCreateContext_upload :: nat
  LoadFBOExtensions_ok :: bool
  interop_procs :: wgl_procs
  init_gen_framebuffer :: nat
  init_gen_texture :: nat
  init_gen_renderbuffer :: nat
  init_fb_status :: nat

definition InitializeWGL :: "wgl_init_driver \<Rightarrow> wgl_factory \<Rightarrow> bool \<times> wgl_factory" where
  "InitializeWGL drv s =
     (if \<not> RegisterWindowClass_ok drv then (False, s)
      else
        (let s1 = s\<lparr>w_hiddenWindow := CreateWindowExW_result drv\<rparr> in
         if w_hiddenWindow s1 = 0 then (False, s1)
         else
           (let s2 = s1\<lparr>w_hdc := GetDC_result drv\<rparr> in
            if w_hdc s2 = 0 then (False, s2\<lparr>w_hiddenWindow := 0\<rparr>)
            else if ChoosePixelFormat_result drv = 0
            then (False, s2\<lparr>w_hdc := 0, w_hiddenWindow := 0\<rparr>)
            else if \<not> SetPixelFormat_ok drv
            then (False, s2\<lparr>w_hdc := 0, w_hiddenWindow := 0\<rparr>)
            else
              (let s3 = s2\<lparr>w_drawGlrc := wglCreateContext_draw drv\<rparr> in
               if w_drawGlrc s3 = 0 then (False, s3\<lparr>w_hdc := 0, w_hiddenWindow := 0\<rparr>)
               else
                 (let s4 = s3\<lparr>w_uploadGlrc := wglCreateContext_upload drv\<rparr> in
                  if w_uploadGlrc s4 = 0
                  then (False, s4\<lparr>w_drawGlrc := 0, w_hdc := 0, w_hiddenWindow := 0\<rparr>)
                  else
                    (let s5 = wgpu [WglMakeCurrent (w_hdc s4) (w_drawGlrc s4)] s4 in
                     if \<not> LoadFBOExtensions_ok drv then (False, wgpu [WglMakeCurrent 0 0] s5)
                     else
                       (let s6 = (wgpu [GLFunctionsInit] s5)\<lparr>w_procs := interop_procs drv\<rparr>;
                            s7 = (wgpu [GlGenFramebuffers (init_gen_framebuffer drv),
                                        GlGenTextures (init_gen_texture drv),
                                        GlGenRenderbuffers (init_gen_renderbuffer drv)] s6)
                                   \<lparr>w_framebuffer := init_gen_framebuffer drv,
                                     w_renderTexture := init_gen_texture drv,
                                     w_depthBuffer := init_gen_renderbuffer drv\<rparr>;
                            s8 = wgpu [GlBindTexture (w_renderTexture s7),
                                       GlTexImage2D (w_width s7) (w_height s7),
                                       GlTexParameteri, GlTexParameteri, GlBindTexture 0,
                                       GlBindRenderbuffer (w_depthBuffer s7),
                                       GlRenderbufferStorage (w_width s7) (w_height s7),
                                       GlBindRenderbuffer 0,
                                       GlBindFramebuffer (w_framebuffer s7),
                                       GlFramebufferTexture2D (w_renderTexture s7),
                                       GlFramebufferRenderbuffer (w_depthBuffer s7),
                                       GlDrawBuffers, GlCheckFramebufferStatus] s7
                        in if init_fb_status drv \<noteq> GL_FRAMEBUFFER_COMPLETE
                           then (False, wgpu [GlBindFramebuffer 0, WglMakeCurrent 0 0] s8)
                           else (True, wgpu [GlViewport (w_width s8) (w_height s8),
                                             GlScissor (w_width s8) (w_height s8),
                                             GlBindFramebuffer 0, WglMakeCurrent 0 0] s8))))))))"

text \<open>
  \<^verbatim>\<open>InitializeD3D11\<close>: the search for an adapter whose name matches the OpenGL renderer
  is the driver's answer \<open>preferredAdapter\<close>; the device is created on it, or else on the
  default hardware adapter.
\<close>

record d3d_driver =
  preferredAdapter :: bool
  D3D11CreateDevice_preferred_ok :: bool
  D3D11CreateDevice_hardware_ok :: bool

definition InitializeD3D11 :: "d3d_driver \<Rightarrow> wgl_factory \<Rightarrow> bool \<times> wgl_factory" where
  "InitializeD3D11 drv s =
     (let hr1 = (if preferredAdapter drv then D3D11CreateDevice_preferred_ok drv else False);
          hr2 = (if \<not> hr1 then D3D11CreateDevice_hardware_ok drv else hr1)
      in if \<not> hr2 then (False, s)
         else (True, s\<lparr>w_d3dDevice := True, w_d3dContext := True\<rparr>))"

definition CleanupWGL :: "wgl_factory \<Rightarrow> wgl_factory" where
  "CleanupWGL s =
     (let s1 = (if w_uploadGlrc s \<noteq> 0 then s\<lparr>w_uploadGlrc := 0\<rparr> else s);
          s2 = (if w_drawGlrc s1 \<noteq> 0 then s1\<lparr>w_drawGlrc := 0\<rparr> else s1);
          s3 = (if w_hdc s2 \<noteq> 0 \<and> w_hiddenWindow s2 \<noteq> 0 then s2\<lparr>w_hdc := 0\<rparr> else s2)
      in if w_hiddenWindow s3 \<noteq> 0 then s3\<lparr>w_hiddenWindow := 0\<rparr> else s3)"

definition CleanupD3D11 :: "wgl_factory \<Rightarrow> wgl_factory" where
  "CleanupD3D11 s =
     (let s1 = (if w_sharedHandle s \<noteq> 0 then s\<lparr>w_sharedHandle := 0\<rparr> else s)
      in s1\<lparr>w_stagingTexture := False, w_sharedTexture := False,
             w_d3dContext := False, w_d3dDevice := False\<rparr>)"

subsection \<open>The WGL factory: shared texture and interop registration\<close>

text \<open>
  What Windows, Direct3D and the interop extension answer during
  \<^verbatim>\<open>CreateSharedTexture\<close>. The two registration attempts (texture, then renderbuffer)
  have their own answers.
\<close>

record shared_driver =
  st_currentContext :: nat
  st_currentDC :: nat
  st_makeCurrent_ok :: bool
  AGUS_MAPS_WIN_KEYED_MUTEX :: "string option"
  CreateTexture2D_shared_ok :: bool
  As_IDXGIResource1_ok :: bool
  GetSharedHandle_ok :: bool
  GetSharedHandle_result :: nat
  As_IDXGIKeyedMutex_ok :: bool
  wglDXOpenDeviceNV_result :: nat
  tex_gen_texture :: nat
  tex_register_result :: nat
  tex_lock_ok :: bool
  tex_gen_framebuffer :: nat
  tex_fb_status :: nat
  rb_gen_renderbuffer :: nat
  rb_register_result :: nat
  rb_lock_ok :: bool
  rb_gen_framebuffer :: nat
  rb_fb_status :: nat
  CreateTexture2D_staging_ok :: bool

definition cleanup_existing :: "wgl_factory \<Rightarrow> wgl_factory" where
  "cleanup_existing s =
     (let s1 =
        (if w_interopDevice s \<noteq> 0 then
           (let sa =
              (if w_interopObject s \<noteq> 0 then
                 (if wglDXUnregisterObjectNV (w_procs s)
                  then wgpu [WglDXUnregisterObjectNV (w_interopObject s)] s
                  else s)\<lparr>w_interopObject := 0\<rparr>
               else s);
                sb = (if wglDXCloseDeviceNV (w_procs sa)
                      then wgpu [WglDXCloseDeviceNV (w_interopDevice sa)] sa else sa)
            in sb\<lparr>w_interopDevice := 0\<rparr>)
         else s);
          s2 = (if w_interopFramebuffer s1 \<noteq> 0
                then (wgpu [GlDeleteFramebuffers (w_interopFramebuffer s1)] s1)
                       \<lparr>w_interopFramebuffer := 0\<rparr>
                else s1);
          s3 = (if w_interopRenderbuffer s2 \<noteq> 0
                then (wgpu [GlDeleteRenderbuffers (w_interopRenderbuffer s2)] s2)
                       \<lparr>w_interopRenderbuffer := 0\<rparr>
                else s2);
          s4 = (if w_interopTexture s3 \<noteq> 0
                then (wgpu [GlDeleteTextures (w_interopTexture s3)] s3)\<lparr>w_interopTexture := 0\<rparr>
                else s3);
          s5 = (if w_sharedHandle s4 \<noteq> 0 then s4\<lparr>w_sharedHandle := 0\<rparr> else s4)
      in s5\<lparr>w_sharedTexture := False, w_stagingTexture := False, w_keyedMutex := False\<rparr>)"

definition cleanupInterop :: "wgl_factory \<Rightarrow> wgl_factory" where
  "cleanupInterop s =
     (let s1 = (if w_interopFramebuffer s \<noteq> 0
                then (wgpu [GlDeleteFramebuffers (w_interopFramebuffer s)] s)
                       \<lparr>w_interopFramebuffer := 0\<rparr>
                else s);
          s2 = (if w_interopRenderbuffer s1 \<noteq> 0
                then (wgpu [GlDeleteRenderbuffers (w_interopRenderbuffer s1)] s1)
                       \<lparr>w_interopRenderbuffer := 0\<rparr>
                else s1);
          s3 = (if w_interopTexture s2 \<noteq> 0
                then (wgpu [GlDeleteTextures (w_interopTexture s2)] s2)\<lparr>w_interopTexture := 0\<rparr>
                else s2)
      in if wglDXUnregisterObjectNV (w_procs s3) \<and> w_interopDevice s3 \<noteq> 0 \<and> w_interopObject s3 \<noteq> 0
         then (wgpu [WglDXUnregisterObjectNV (w_interopObject s3)] s3)\<lparr>w_interopObject := 0\<rparr>
         else s3)"

definition tryTextureInterop :: "shared_driver \<Rightarrow> wgl_factory \<Rightarrow> bool \<times> wgl_factory" where
  "tryTextureInterop drv s =
     (let s1 = (wgpu [GlGenTextures (tex_gen_texture drv), GlBindTexture (tex_gen_texture drv),
                      GlTexParameteri, GlTexParameteri, GlTexParameteri, GlTexParameteri,
                      GlBindTexture 0] s)\<lparr>w_interopTexture := tex_gen_texture drv\<rparr>;
          s2 = (wgpu [WglDXRegisterObjectNV (w_interopTexture s1)] s1)
                 \<lparr>w_interopObject := tex_register_result drv\<rparr>
      in if w_interopObject s2 = 0 then (False, s2)
         else
           (let s3 = wgpu [WglDXLockObjectsNV (w_interopObject s2)] s2 in
            if \<not> tex_lock_ok drv then (False, s3)
            else
              (let s4 = (wgpu [GlGenFramebuffers (tex_gen_framebuffer drv),
                               GlBindFramebuffer (tex_gen_framebuffer drv),
                               GlFramebufferTexture2D (w_interopTexture s3),
                               GlDrawBuffers, GlReadBuffer, GlCheckFramebufferStatus] s3)
                          \<lparr>w_interopFramebuffer := tex_gen_framebuffer drv\<rparr>;
                   s5 = wgpu [GlBindFramebuffer 0, WglDXUnlockObjectsNV (w_interopObject s4)] s4
               in if tex_fb_status drv \<noteq> GL_FRAMEBUFFER_COMPLETE then (False, s5)
                  else (True, s5))))"

definition tryRenderbufferInterop :: "shared_driver \<Rightarrow> wgl_factory \<Rightarrow> bool \<times> wgl_factory" where
  "tryRenderbufferInterop drv s =
     (let s1 = (wgpu [GlGenRenderbuffers (rb_gen_renderbuffer drv),
                      GlBindRenderbuffer (rb_gen_renderbuffer drv), GlBindRenderbuffer 0] s)
                 \<lparr>w_interopRenderbuffer := rb_gen_renderbuffer drv\<rparr>;
          s2 = (wgpu [WglDXRegisterObjectNV (w_interopRenderbuffer s1)] s1)
                 \<lparr>w_interopObject := rb_register_result drv\<rparr>
      in if w_interopObject s2 = 0 then (False, s2)
         else
           (let s3 = wgpu [WglDXLockObjectsNV (w_interopObject s2)] s2 in
            if \<not> rb_lock_ok drv then (False, s3)
            else
              (let s4 = (wgpu [GlGenFramebuffers (rb_gen_framebuffer drv),
                               GlBindFramebuffer (rb_gen_framebuffer drv),
                               GlFramebufferRenderbuffer (w_interopRenderbuffer s3),
                               GlDrawBuffers, GlReadBuffer, GlCheckFramebufferStatus] s3)
                          \<lparr>w_interopFramebuffer := rb_gen_framebuffer drv\<rparr>;
                   s5 = wgpu [GlBindFramebuffer 0, WglDXUnlockObjectsNV (w_interopObject s4)] s4
               in if rb_fb_status drv \<noteq> GL_FRAMEBUFFER_COMPLETE then (False, s5)
                  else (True, s5))))"

text \<open>
  The block "WGL Interop setup" of \<^verbatim>\<open>CreateSharedTexture\<close>: open the device, try to
  register the shared texture as a texture, then as a renderbuffer, and close the device
  again when both attempts fail.
\<close>

definition interop_setup :: "shared_driver \<Rightarrow> wgl_factory \<Rightarrow> wgl_factory" where
  "interop_setup drv s =
     (if wglDXOpenDeviceNV (w_procs s) then
        (let s1 = (wgpu [WglDXOpenDeviceNV] s)\<lparr>w_interopDevice := wglDXOpenDeviceNV_result drv\<rparr> in
         if w_interopDevice s1 \<noteq> 0 then
           (case tryTextureInterop drv s1 of
              (ok1, s2) \<Rightarrow>
                (case (if \<not> ok1 then tryRenderbufferInterop drv (cleanupInterop s2)
                       else (ok1, s2)) of
                   (interopOk, s3) \<Rightarrow>
                     if \<not> interopOk then
                       (let s4 = cleanupInterop s3;
                            s5 = (if wglDXCloseDeviceNV (w_procs s4)
                                  then wgpu [WglDXCloseDeviceNV (w_interopDevice s4)] s4 else s4)
                        in s5\<lparr>w_interopDevice := 0\<rparr>)
                     else s3))
         else s1)
      else s)"

definition create_shared :: "int \<Rightarrow> int \<Rightarrow> shared_driver \<Rightarrow> wgl_factory \<Rightarrow> bool \<times> wgl_factory" where
  "create_shared width height drv s =
     (let s1 = s\<lparr>w_useKeyedMutex := ShouldEnableKeyedMutex (AGUS_MAPS_WIN_KEYED_MUTEX drv)\<rparr> in
      if \<not> CreateTexture2D_shared_ok drv then (False, s1)
      else
        (let s2 = s1\<lparr>w_sharedTexture := True\<rparr> in
         if \<not> As_IDXGIResource1_ok drv then (False, s2)
         else if \<not> GetSharedHandle_ok drv then (False, s2)
         else
           (let s3 = s2\<lparr>w_sharedHandle := GetSharedHandle_result drv\<rparr> in
            if w_useKeyedMutex s3 then
              (if \<not> As_IDXGIKeyedMutex_ok drv then (False, s3)
               else (True, s3\<lparr>w_keyedMutex := True\<rparr>))
            else (True, s3))))"

definition CreateSharedTexture :: "int \<Rightarrow> int \<Rightarrow> shared_driver \<Rightarrow> wgl_factory \<Rightarrow> bool \<times> wgl_factory" where
  "CreateSharedTexture width height drv s =
     (let prevContext = st_currentContext drv;
          prevDC = st_currentDC drv;
          needCurrent = (prevContext \<noteq> w_drawGlrc s \<or> prevDC \<noteq> w_hdc s);
          s1 = (if needCurrent then wgpu [WglMakeCurrent (w_hdc s) (w_drawGlrc s)] s else s);
          madeCurrent = (needCurrent \<and> st_makeCurrent_ok drv)
      in if needCurrent \<and> \<not> madeCurrent then (False, s1)
         else
           (case create_shared width height drv (cleanup_existing s1) of
              (ok, s2) \<Rightarrow>
                if \<not> ok then (False, s2)
                else
                  (let s3 = interop_setup drv s2;
                       s4 = (if madeCurrent then
                               (if prevContext \<noteq> 0 then wgpu [WglMakeCurrent prevDC prevContext] s3
                                else wgpu [WglMakeCurrent 0 0] s3)
                             else s3)
                   in if \<not> CreateTexture2D_staging_ok drv then (False, s4)
                      else (True, s4\<lparr>w_stagingTexture := True,
                                       w_width := width, w_height := height\<rparr>))))"

text \<open>The constructor of the WGL factory.\<close>

record wgl_driver =
  AGUS_MAPS_WIN_OVERLAY :: "string option"
  wgl_init :: wgl_init_driver
  d3d_init :: d3d_driver
  shared_init :: shared_driver

definition AgusWglContextFactory :: "int \<Rightarrow> int \<Rightarrow> wgl_driver \<Rightarrow> wgl_factory" where
  "AgusWglContextFactory width height drv =
     (let s0 = wgl_factory_default\<lparr>w_width := width, w_height := height\<rparr>;
          s1 = s0\<lparr>w_overlayEnabled := ShouldEnableOverlay (AGUS_MAPS_WIN_OVERLAY drv)\<rparr>;
          s2 = s1\<lparr>w_renderedWidth := width, w_renderedHeight := height\<rparr>
      in case InitializeWGL (wgl_init drv) s2 of
           (ok1, s3) \<Rightarrow>
             if \<not> ok1 then s3
             else
               (case InitializeD3D11 (d3d_init drv) s3 of
                  (ok2, s4) \<Rightarrow>
                    if \<not> ok2 then CleanupWGL s4
                    else
                      (case CreateSharedTexture width height (shared_init drv) s4 of
                         (ok3, s5) \<Rightarrow>
                           if \<not> ok3 then CleanupWGL (CleanupD3D11 s5) else s5)))"

subsection \<open>The WGL factory: resize and frame transfer\<close>

record resize_driver =
  rs_currentContext :: nat
  rs_currentDC :: nat
  rs_makeCurrent_ok :: bool
  rs_fb_status :: nat
  rs_shared :: shared_driver

text \<open>
  \<^verbatim>\<open>AgusWglContextFactory::SetSurfaceSize\<close> resizes at once, on the calling thread: it
  makes the draw context current, reallocates, re-attaches, checks the status (and only
  logs when it is not complete), and recreates the shared texture.
\<close>

definition Wgl_SetSurfaceSize :: "int \<Rightarrow> int \<Rightarrow> resize_driver \<Rightarrow> wgl_factory \<Rightarrow> wgl_factory" where
  "Wgl_SetSurfaceSize width height drv s =
     (if w_width s = width \<and> w_height s = height then s
      else
        (let prevContext = rs_currentContext drv;
             prevDC = rs_currentDC drv;
             s1 = wgpu [WglMakeCurrent (w_hdc s) (w_drawGlrc s)] s
         in if \<not> rs_makeCurrent_ok drv then s1
            else
              (let s2 = wgpu [GlBindTexture (w_renderTexture s1), GlTexImage2D width height,
                              GlBindTexture 0,
                              GlBindRenderbuffer (w_depthBuffer s1),
                              GlRenderbufferStorage width height, GlBindRenderbuffer 0,
                              GlBindFramebuffer (w_framebuffer s1),
                              GlFramebufferTexture2D (w_renderTexture s1),
                              GlFramebufferRenderbuffer (w_depthBuffer s1),
                              GlDrawBuffers, GlCheckFramebufferStatus] s1;
                   s3 = (if rs_fb_status drv \<noteq> GL_FRAMEBUFFER_COMPLETE then s2 else s2);
                   s4 = wgpu [GlViewport width height, GlScissor width height,
                              GlBindFramebuffer 0] s3;
                   s5 = (if prevContext \<noteq> 0 then wgpu [WglMakeCurrent prevDC prevContext] s4
                         else wgpu [WglMakeCurrent 0 0] s4);
                   s6 = s5\<lparr>w_width := width, w_height := height\<rparr>
               in snd (CreateSharedTexture width height (rs_shared drv) s6))))"

datatype acquire_result = AcquireOk | AcquireTimeout | AcquireFailed

record frame_driver =
  fr_currentContext :: nat
  fr_currentDC :: nat
  fr_viewportWidth :: int
  fr_viewportHeight :: int
  AcquireSync_result :: acquire_result
  fr_lock_ok :: bool
  fr_fb_status :: nat
  Map_ok :: bool

text \<open>The test at the head of \<^verbatim>\<open>CopyToSharedTexture\<close> that selects the zero-copy path.\<close>

definition useInterop :: "wgl_factory \<Rightarrow> bool" where
  "useInterop s =
     (let hasInteropFns = (wglDXLockObjectsNV (w_procs s) \<and> wglDXUnlockObjectsNV (w_procs s))
      in w_interopObject s \<noteq> 0 \<and> w_interopFramebuffer s \<noteq> 0 \<and> w_interopDevice s \<noteq> 0
         \<and> hasInteropFns)"

definition draw_overlay :: "nat \<Rightarrow> int \<Rightarrow> int \<Rightarrow> wgl_factory \<Rightarrow> wgl_factory" where
  "draw_overlay fbo width height s =
     (if \<not> w_overlayEnabled s then s else wgpu [DrawOverlayText fbo width height] s)"

text \<open>
  \<^verbatim>\<open>CopyToSharedTexture\<close>. The zero-copy path blits into the interop framebuffer; the
  CPU path reads the pixels back and uploads them through the staging texture. The text
  overlay is one log entry, and the contents of the Direct3D textures are not modelled: which
  path a frame took is read off the log (\<open>GlBlitFramebuffer\<close> or \<open>GlReadPixels\<close>).
\<close>

definition CopyToSharedTexture :: "frame_driver \<Rightarrow> wgl_factory \<Rightarrow> wgl_factory" where
  "CopyToSharedTexture drv s =
     (if \<not> useInterop s \<and> (\<not> w_stagingTexture s \<or> \<not> w_sharedTexture s) then s
      else
        (let prevContext = fr_currentContext drv;
             prevDC = fr_currentDC drv;
             wasOurContext = (prevContext = w_drawGlrc s);
             s1 = (if \<not> wasOurContext then wgpu [WglMakeCurrent (w_hdc s) (w_drawGlrc s)] s
                   else s);
             fboToRead = (if w_lastBoundFramebuffer s1 = 0 then w_framebuffer s1
                          else w_lastBoundFramebuffer s1);
             s2 = wgpu [GlGetViewport] s1;
             (rw0, rh0) = (if fr_viewportWidth drv \<le> 0 \<or> fr_viewportHeight drv \<le> 0
                           then (w_width s2, w_height s2)
                           else (fr_viewportWidth drv, fr_viewportHeight drv));
             readWidth = (if rw0 > w_width s2 then w_width s2 else rw0);
             readHeight = (if rh0 > w_height s2 then w_height s2 else rh0);
             s3 = s2\<lparr>w_renderedWidth := readWidth, w_renderedHeight := readHeight\<rparr>;
             s4 =
               (if useInterop s then
                  (let sa = wgpu [GlFinish] s3;
                       locked = (if w_keyedMutex sa then AcquireSync_result drv = AcquireOk
                                 else True)
                   in if locked then
                        (let sb = wgpu [WglDXLockObjectsNV (w_interopObject sa)] sa in
                         if fr_lock_ok drv then
                           wgpu [GlBindReadFramebuffer fboToRead,
                                 GlBindDrawFramebuffer (w_interopFramebuffer sb),
                                 GlBlitFramebuffer readWidth readHeight,
                                 WglDXUnlockObjectsNV (w_interopObject sb)]
                             (draw_overlay fboToRead readWidth readHeight sb)
                         else sb)
                      else sa)
                else
                  (let sa = wgpu [GlBindFramebuffer fboToRead, GlCheckFramebufferStatus] s3;
                       sb = draw_overlay fboToRead readWidth readHeight sa
                   in wgpu [GlFinish, GlReadPixels readWidth readHeight, GlBindFramebuffer 0] sb))
         in if \<not> wasOurContext then
              (if prevContext \<noteq> 0 then wgpu [WglMakeCurrent prevDC prevContext] s4
               else wgpu [WglMakeCurrent 0 0] s4)
            else s4))"

definition Wgl_OnFrameReady :: "frame_driver \<Rightarrow> wgl_factory \<Rightarrow> wgl_factory" where
  "Wgl_OnFrameReady drv s =
     (let s1 = CopyToSharedTexture drv s in
      if w_frameCallback s1 then s1\<lparr>w_frame_callbacks := Suc (w_frame_callbacks s1)\<rparr> else s1)"

definition Wgl_RequestActiveFrame :: "wgl_factory \<Rightarrow> wgl_factory" where
  "Wgl_RequestActiveFrame s =
     (if w_keepAliveCallback s then s\<lparr>w_keepAlive_callbacks := Suc (w_keepAlive_callbacks s)\<rparr>
      else s)"

definition Wgl_GetDrawContext :: "wgl_factory \<Rightarrow> wgl_context option \<times> wgl_factory" where
  "Wgl_GetDrawContext s =
     (let s1 = (if w_drawContext s = None
                then s\<lparr>w_drawContext := Some \<lparr> wc_hdc = w_hdc s, wc_glrc = w_drawGlrc s,
                                               wc_isDraw = True, wc_initialFrameCount = 120 \<rparr>\<rparr>
                else s)
      in (w_drawContext s1, s1))"

definition Wgl_GetResourcesUploadContext :: "wgl_factory \<Rightarrow> wgl_context option \<times> wgl_factory" where
  "Wgl_GetResourcesUploadContext s =
     (let s1 = (if w_uploadContext s = None
                then s\<lparr>w_uploadContext := Some \<lparr> wc_hdc = w_hdc s, wc_glrc = w_uploadGlrc s,
                                                 wc_isDraw = False, wc_initialFrameCount = 120 \<rparr>\<rparr>
                else s)
      in (w_uploadContext s1, s1))"

text \<open>
  \<^verbatim>\<open>AgusWglContext::Present\<close> of the draw context: the context's frame counter is a
  field of the wrapper, which the factory owns.
\<close>

definition Wgl_Present :: "wgl_context \<Rightarrow> frame_driver \<Rightarrow> wgl_factory \<Rightarrow> wgl_context \<times> wgl_factory" where
  "Wgl_Present ctx drv s =
     (if wc_isDraw ctx then
        (let s1 = Wgl_OnFrameReady drv s in
         if wc_initialFrameCount ctx > 0
         then (ctx\<lparr>wc_initialFrameCount := wc_initialFrameCount ctx - 1\<rparr>,
               Wgl_RequestActiveFrame s1)
         else (ctx, s1))
      else (ctx, s))"

datatype wgl_op =
    WOpGetDrawContext
  | WOpGetResourcesUploadContext
  | WOpSetSurfaceSize int int resize_driver
  | WOpResize bool int int resize_driver
  | WOpSetFrameCallback bool
  | WOpSetKeepAliveCallback bool
  | WOpPresent bool frame_driver

fun wgl_step :: "wgl_op \<Rightarrow> wgl_factory \<Rightarrow> wgl_factory" where
  "wgl_step WOpGetDrawContext s = snd (Wgl_GetDrawContext s)"
| "wgl_step WOpGetResourcesUploadContext s = snd (Wgl_GetResourcesUploadContext s)"
| "wgl_step (WOpSetSurfaceSize width height drv) s = Wgl_SetSurfaceSize width height drv s"
| "wgl_step (WOpResize draw width height drv) s =
     (case (if draw then w_drawContext s else w_uploadContext s) of
        None \<Rightarrow> s
      | Some ctx \<Rightarrow> Wgl_SetSurfaceSize width height drv s)"
| "wgl_step (WOpSetFrameCallback cb) s = s\<lparr>w_frameCallback := cb\<rparr>"
| "wgl_step (WOpSetKeepAliveCallback cb) s = s\<lparr>w_keepAliveCallback := cb\<rparr>"
| "wgl_step (WOpPresent draw drv) s =
     (case (if draw then w_drawContext s else w_uploadContext s) of
        None \<Rightarrow> s
      | Some ctx \<Rightarrow>
          (case Wgl_Present ctx drv s of
             (ctx', s') \<Rightarrow>
               if draw then s'\<lparr>w_drawContext := Some ctx'\<rparr>
               else s'\<lparr>w_uploadContext := Some ctx'\<rparr>))"

definition wgl_run :: "wgl_op list \<Rightarrow> wgl_factory \<Rightarrow> wgl_factory" where
  "wgl_run ops s = foldl (\<lambda>s' op. wgl_step op s') s ops"

fun is_WOpPresent :: "wgl_op \<Rightarrow> bool" where
  "is_WOpPresent (WOpPresent draw drv) = True"
| "is_WOpPresent _ = False"

fun is_resize :: "wgl_op \<Rightarrow> bool" where
  "is_resize (WOpSetSurfaceSize width height drv) = True"
| "is_resize (WOpResize draw width height drv) = True"
| "is_resize _ = False"

subsection \<open>Predicates used in the statements\<close>

text \<open>The factory has size \<open>(width, height)\<close> and has published it as its rendered size.\<close>

definition size_published :: "int \<Rightarrow> int \<Rightarrow> factory \<Rightarrow> bool" where
  "size_published width height s =
     (m_width s = width \<and> m_height s = height \<and>
      m_renderedWidth s = width \<and> m_renderedHeight s = height)"

text \<open>
  The only entry point that can store a frame in the staging buffer: \<^verbatim>\<open>Present\<close> with a
  readback that reports no error.
\<close>

fun may_capture :: "egl_op \<Rightarrow> bool" where
  "may_capture (OpPresent draw drv) = (readPixels_error drv = GL_NO_ERROR)"
| "may_capture _ = False"

text \<open>
  The log entries of the zero-copy path (opening the interop device, registering, locking,
  blitting), and the entry of the CPU path (the pixel readback).
\<close>

fun interop_call :: "gpu_call \<Rightarrow> bool" where
  "interop_call WglDXOpenDeviceNV = True"
| "interop_call (WglDXRegisterObjectNV name) = True"
| "interop_call (WglDXLockObjectsNV obj) = True"
| "interop_call (GlBlitFramebuffer width height) = True"
| "interop_call _ = False"

fun readback_call :: "gpu_call \<Rightarrow> bool" where
  "readback_call (GlReadPixels width height) = True"
| "readback_call _ = False"

definition registrations :: "gpu_call list \<Rightarrow> nat" where
  "registrations l = length (filter (\<lambda>c. case c of WglDXRegisterObjectNV name \<Rightarrow> True | _ \<Rightarrow> False) l)"

text \<open>
  A run of \<^verbatim>\<open>CreateSharedTexture\<close> gets as far as the registration: the GL context is
  or can be made current, the shared texture and its handles are created, and the interop
  device opens.
\<close>

definition reaches_registration :: "shared_driver \<Rightarrow> wgl_factory \<Rightarrow> bool" where
  "reaches_registration drv s =
     (((st_currentContext drv = w_drawGlrc s \<and> st_currentDC drv = w_hdc s) \<or> st_makeCurrent_ok drv)
      \<and> CreateTexture2D_shared_ok drv \<and> As_IDXGIResource1_ok drv \<and> GetSharedHandle_ok drv
      \<and> (if ShouldEnableKeyedMutex (AGUS_MAPS_WIN_KEYED_MUTEX drv)
          then As_IDXGIKeyedMutex_ok drv else True)
      \<and> wglDXOpenDeviceNV (w_procs s) \<and> wglDXOpenDeviceNV_result drv \<noteq> 0)"

text \<open>A call of the Android \<^verbatim>\<open>notifyFlutterFrameReady\<close> can reach the Java method.\<close>

definition jni_reachable :: "jni_driver \<Rightarrow> bool" where
  "jni_reachable jni =
     (if GetEnv_status jni = JNI_EDETACHED
      then AttachCurrentThread_ok jni \<and> AttachCurrentThread_env jni
      else GetEnv_env jni)"

subsection \<open>Concrete drivers for the examples\<close>

definition example_egl :: egl_driver where
  "example_egl =
     \<lparr> hasPlatformBase = True, hasSurfaceless = True, hasDeviceExt = False,
       eglGetDisplay_default = 1, eglGetPlatformDisplayEXT_proc = True,
       eglGetPlatformDisplayEXT_result = 2, eglInitialize_ok = True,
       hasSurfacelessContext = True, eglBindAPI_ok = True,
       eglChooseConfig = (\<lambda>surfaceType depthSize stencilSize. (True, 1)),
       eglChooseConfig_minimal = (True, 1),
       eglCreatePbufferSurface_draw = 3, eglCreatePbufferSurface_upload = 4,
       eglCreateContext_draw = 5, eglCreateContext_upload = 6 \<rparr>"

definition example_fb :: "nat \<Rightarrow> fb_driver" where
  "example_fb status =
     \<lparr> fb_makeCurrent_ok = True, fb_gen_framebuffer = 1, fb_gen_texture = 2,
       fb_gen_renderbuffer = 3, fb_status = status \<rparr>"

definition example_present :: "nat \<Rightarrow> byte list \<Rightarrow> nat \<Rightarrow> present_driver" where
  "example_present status pixels err =
     \<lparr> resize_status = status, readPixels_data = pixels, readPixels_error = err \<rparr>"

definition example_glue :: linux_glue where
  "example_glue =
     \<lparr> g_keepAliveCounter = 0, g_framework = True, g_frameReadyCallback = True,
       frame_ready_calls = 0, make_frame_active_calls = 0 \<rparr>"

definition example_android :: android_glue where
  "example_android =
     \<lparr> g_lastFrameNotification = 0, g_frameNotificationPending = False, g_javaVM = True,
       g_pluginInstance = True, g_notifyFrameReadyMethod = True, notifyFrameReady_calls = 0 \<rparr>"

definition example_jni :: jni_driver where
  "example_jni =
     \<lparr> GetEnv_status = 0, GetEnv_env = True, AttachCurrentThread_ok = True,
       AttachCurrentThread_env = True \<rparr>"

definition all_procs :: wgl_procs where
  "all_procs =
     \<lparr> wglDXOpenDeviceNV = True, wglDXCloseDeviceNV = True, wglDXRegisterObjectNV = True,
       wglDXUnregisterObjectNV = True, wglDXLockObjectsNV = True,
       wglDXUnlockObjectsNV = True \<rparr>"

definition example_wgl_init :: wgl_init_driver where
  "example_wgl_init =
     \<lparr> RegisterWindowClass_ok = True, CreateWindowExW_result = 1, GetDC_result = 2,
       ChoosePixelFormat_result = 7, SetPixelFormat_ok = True, wglCreateContext_draw = 3,
       wglCreateContext_upload = 4, LoadFBOExtensions_ok = True, interop_procs = all_procs,
       init_gen_framebuffer = 1, init_gen_texture = 1, init_gen_renderbuffer = 1,
       init_fb_status = GL_FRAMEBUFFER_COMPLETE \<rparr>"

definition example_d3d :: d3d_driver where
  "example_d3d =
     \<lparr> preferredAdapter = False, D3D11CreateDevice_preferred_ok = False,
       D3D11CreateDevice_hardware_ok = True \<rparr>"

text \<open>
  A driver of \<^verbatim>\<open>CreateSharedTexture\<close> on which everything succeeds except, when the
  argument is \<open>0\<close>, the two registrations: \<open>example_shared 0\<close> lets both
  \<^verbatim>\<open>wglDXRegisterObjectNV\<close> calls return null, \<open>example_shared 9\<close> lets them return
  the handle 9.
\<close>

definition example_shared :: "nat \<Rightarrow> shared_driver" where
  "example_shared registered =
     \<lparr> st_currentContext = 0, st_currentDC = 0, st_makeCurrent_ok = True,
       AGUS_MAPS_WIN_KEYED_MUTEX = None, CreateTexture2D_shared_ok = True,
       As_IDXGIResource1_ok = True, GetSharedHandle_ok = True, GetSharedHandle_result = 8,
       As_IDXGIKeyedMutex_ok = True, wglDXOpenDeviceNV_result = 5,
       tex_gen_texture = 2, tex_register_result = registered, tex_lock_ok = True,
       tex_gen_framebuffer = 2, tex_fb_status = GL_FRAMEBUFFER_COMPLETE,
       rb_gen_renderbuffer = 2, rb_register_result = registered, rb_lock_ok = True,
       rb_gen_framebuffer = 2, rb_fb_status = GL_FRAMEBUFFER_COMPLETE,
       CreateTexture2D_staging_ok = True \<rparr>"

definition example_wgl :: "nat \<Rightarrow> wgl_driver" where
  "example_wgl registered =
     \<lparr> AGUS_MAPS_WIN_OVERLAY = None, wgl_init = example_wgl_init, d3d_init = example_d3d,
       shared_init = example_shared registered \<rparr>"

definition example_resize :: "nat \<Rightarrow> nat \<Rightarrow> resize_driver" where
  "example_resize status registered =
     \<lparr> rs_currentContext = 0, rs_currentDC = 0, rs_makeCurrent_ok = True,
       rs_fb_status = status, rs_shared = example_shared registered \<rparr>"

definition example_frame :: frame_driver where
  "example_frame =
     \<lparr> fr_currentContext = 3, fr_currentDC = 2, fr_viewportWidth = 800,
       fr_viewportHeight = 600, AcquireSync_result = AcquireOk, fr_lock_ok = True,
       fr_fb_status = GL_FRAMEBUFFER_COMPLETE, Map_ok = True \<rparr>"

text \<open>The log entries that allocate or reallocate the storage of the render target.\<close>

fun storage_call :: "gpu_call \<Rightarrow> bool" where
  "storage_call (GlTexImage2D width height) = True"
| "storage_call (GlRenderbufferStorage width height) = True"
| "storage_call _ = False"

text \<open>
  The WGL factory of size 800 x 600 after \<^verbatim>\<open>InitializeWGL\<close> and
  \<^verbatim>\<open>InitializeD3D11\<close> on the example drivers, before the first
  \<^verbatim>\<open>CreateSharedTexture\<close>.
\<close>

definition example_wgl_initialised :: wgl_factory where
  "example_wgl_initialised =
     \<lparr> w_hiddenWindow = 1, w_hdc = 2, w_drawGlrc = 3, w_uploadGlrc = 4, w_framebuffer = 1,
       w_renderTexture = 1, w_depthBuffer = 1, w_lastBoundFramebuffer = 0,
       w_d3dDevice = True, w_d3dContext = True, w_sharedTexture = False,
       w_stagingTexture = False, w_sharedHandle = 0, w_keyedMutex = False,
       w_useKeyedMutex = False, w_interopDevice = 0, w_interopObject = 0,
       w_interopTexture = 0, w_interopRenderbuffer = 0, w_interopFramebuffer = 0,
       w_procs = all_procs, w_drawContext = None, w_uploadContext = None,
       w_width = 800, w_height = 600, w_renderedWidth = 800, w_renderedHeight = 600,
       w_frameCallback = False, w_keepAliveCallback = False, w_frame_callbacks = 0,
       w_keepAlive_callbacks = 0, w_overlayEnabled = True,
       w_gpu_log =
         [WglMakeCurrent 2 3, GLFunctionsInit, GlGenFramebuffers 1, GlGenTextures 1,
          GlGenRenderbuffers 1, GlBindTexture 1, GlTexImage2D 800 600, GlTexParameteri,
          GlTexParameteri, GlBindTexture 0, GlBindRenderbuffer 1,
          GlRenderbufferStorage 800 600, GlBindRenderbuffer 0, GlBindFramebuffer 1,
          GlFramebufferTexture2D 1, GlFramebufferRenderbuffer 1, GlDrawBuffers,
          GlCheckFramebufferStatus, GlViewport 800 600, GlScissor 800 600,
          GlBindFramebuffer 0, WglMakeCurrent 0 0] \<rparr>"

text \<open>
  An EGL factory of one column and two rows after a first frame was captured from the
  readback \<open>[1, ..., 8]\<close>: the staging buffer holds the two rows in swapped order.
\<close>

definition example_captured :: factory where
  "example_captured =
     CaptureFramePixels (example_present GL_FRAMEBUFFER_COMPLETE [1, 2, 3, 4, 5, 6, 7, 8] 0)
       (AgusEglContextFactory 1 2 example_egl)"


text \<open>
  An EGL factory of size 1 x 1 with a draw context, whose frame callback is the
  \<^verbatim>\<open>notifyFlutterFrameReady\<close> of the Linux glue, as
  \<^verbatim>\<open>agus_native_create_surface\<close> sets it.
\<close>

definition example_notifying :: factory where
  "example_notifying =
     (snd (GetDrawContext (example_fb GL_FRAMEBUFFER_COMPLETE)
        (AgusEglContextFactory 1 1 example_egl)))
       \<lparr>m_frameCallback := Some linux_notifyFlutterFrameReady\<rparr>"

definition example_draw_context :: egl_context where
  "example_draw_context =
     \<lparr> ctx_display = 1, ctx_surface = 3, ctx_context = 5, ctx_isDrawContext = True,
       ctx_surfaceless = False, ctx_presentAvailable = True \<rparr>"

section \<open>Auxiliary lemmas\<close>











lemma size_to_int_small: "n < 2 ^ 31 \<Longrightarrow> size_to_int n = int n"
  unfolding size_to_int_def
  by (simp add: signed_of_nat signed_take_bit_int_eq_self)

lemma nat_min_int: "0 < b \<Longrightarrow> nat (min b (int L)) = min (nat b) L"
  by (simp add: min_def) linarith

lemma CaptureFramePixels_error:
  "readPixels_error drv \<noteq> GL_NO_ERROR \<Longrightarrow> m_pixelBuffer (CaptureFramePixels drv s) = m_pixelBuffer s"
  by (simp add: CaptureFramePixels_def Let_def gpu_def)

lemma CheckPendingResize_pixelBuffer:
  "m_pixelBuffer (CheckPendingResize drv s) = m_pixelBuffer s"
  by (simp add: CheckPendingResize_def ApplyPendingResize_def Let_def gpu_def)

lemma CopyToPixelBuffer_cong:
  "m_pixelBuffer s' = m_pixelBuffer s \<Longrightarrow> CopyToPixelBuffer s' buffer n = CopyToPixelBuffer s buffer n"
  by (simp add: CopyToPixelBuffer_def split: option.split)


lemma InitializeEGL_frame:
  "m_width (snd (InitializeEGL drv s)) = m_width s \<and>
   m_height (snd (InitializeEGL drv s)) = m_height s \<and>
   m_renderedWidth (snd (InitializeEGL drv s)) = m_renderedWidth s \<and>
   m_renderedHeight (snd (InitializeEGL drv s)) = m_renderedHeight s \<and>
   m_pendingResize (snd (InitializeEGL drv s)) = m_pendingResize s \<and>
   m_pixelBuffer (snd (InitializeEGL drv s)) = m_pixelBuffer s \<and>
   gpu_log (snd (InitializeEGL drv s)) = gpu_log s"
  by (simp add: InitializeEGL_def select_display_def create_surfaces_def create_contexts_def
        Let_def split: prod.splits)

lemma constructor_facts:
  "size_published width height (AgusEglContextFactory width height drv) \<and>
   \<not> m_pendingResize (AgusEglContextFactory width height drv) \<and>
   m_pixelBuffer (AgusEglContextFactory width height drv) = [] \<and>
   gpu_log (AgusEglContextFactory width height drv) = []"
proof -
  let ?s1 = "factory_default\<lparr>m_width := width, m_height := height,
                m_renderedWidth := width, m_renderedHeight := height\<rparr>"
  obtain ok s2 where i: "InitializeEGL drv ?s1 = (ok, s2)" by (cases "InitializeEGL drv ?s1")
  have f: "m_width s2 = width \<and> m_height s2 = height \<and> m_renderedWidth s2 = width \<and>
           m_renderedHeight s2 = height \<and> \<not> m_pendingResize s2 \<and> m_pixelBuffer s2 = [] \<and>
           gpu_log s2 = []"
    using InitializeEGL_frame [of drv ?s1] i by (simp add: factory_default_def)
  show ?thesis
    using f i by (simp add: AgusEglContextFactory_def Let_def size_published_def)
qed

lemma CreateFramebuffer_frame:
  "m_width (snd (CreateFramebuffer w h drv s)) = m_width s \<and>
   m_height (snd (CreateFramebuffer w h drv s)) = m_height s \<and>
   m_pendingResize (snd (CreateFramebuffer w h drv s)) = m_pendingResize s \<and>
   m_pendingWidth (snd (CreateFramebuffer w h drv s)) = m_pendingWidth s \<and>
   m_pendingHeight (snd (CreateFramebuffer w h drv s)) = m_pendingHeight s \<and>
   m_pixelBuffer (snd (CreateFramebuffer w h drv s)) = m_pixelBuffer s"
  by (simp add: CreateFramebuffer_def Let_def gpu_def)

lemma CreateFramebuffer_rendered:
  "m_renderedWidth s = w \<Longrightarrow> m_renderedHeight s = h \<Longrightarrow>
   m_renderedWidth (snd (CreateFramebuffer w h drv s)) = w \<and>
   m_renderedHeight (snd (CreateFramebuffer w h drv s)) = h"
  by (simp add: CreateFramebuffer_def Let_def gpu_def)

lemma GetDrawContext_frame:
  "m_width (snd (GetDrawContext drv s)) = m_width s \<and>
   m_height (snd (GetDrawContext drv s)) = m_height s \<and>
   m_pendingResize (snd (GetDrawContext drv s)) = m_pendingResize s \<and>
   m_pendingWidth (snd (GetDrawContext drv s)) = m_pendingWidth s \<and>
   m_pendingHeight (snd (GetDrawContext drv s)) = m_pendingHeight s \<and>
   m_pixelBuffer (snd (GetDrawContext drv s)) = m_pixelBuffer s"
proof -
  obtain ok s1 where c: "CreateFramebuffer (m_width s) (m_height s) drv s = (ok, s1)"
    by (cases "CreateFramebuffer (m_width s) (m_height s) drv s")
  have "m_width s1 = m_width s \<and> m_height s1 = m_height s \<and>
        m_pendingResize s1 = m_pendingResize s \<and> m_pendingWidth s1 = m_pendingWidth s \<and>
        m_pendingHeight s1 = m_pendingHeight s \<and> m_pixelBuffer s1 = m_pixelBuffer s"
    using CreateFramebuffer_frame [of "m_width s" "m_height s" drv s] c by simp
  then show ?thesis using c by (simp add: GetDrawContext_def Let_def)
qed

lemma GetDrawContext_published:
  assumes "size_published w h s"
  shows "size_published w h (snd (GetDrawContext drv s))"
proof -
  have a: "m_width s = w" "m_height s = h" "m_renderedWidth s = w" "m_renderedHeight s = h"
    using assms by (simp_all add: size_published_def)
  obtain ok s1 where c: "CreateFramebuffer w h drv s = (ok, s1)"
    by (cases "CreateFramebuffer w h drv s")
  have "m_renderedWidth s1 = w \<and> m_renderedHeight s1 = h"
    using CreateFramebuffer_rendered [of s w h drv] a c by simp
  then have r: "m_renderedWidth (snd (GetDrawContext drv s)) = w \<and>
           m_renderedHeight (snd (GetDrawContext drv s)) = h"
    using a c by (simp add: GetDrawContext_def Let_def)
  show ?thesis using r GetDrawContext_frame [of drv s] a by (simp add: size_published_def)
qed

lemma CaptureFramePixels_frame:
  "m_width (CaptureFramePixels drv s) = m_width s \<and>
   m_height (CaptureFramePixels drv s) = m_height s \<and>
   m_renderedWidth (CaptureFramePixels drv s) = m_renderedWidth s \<and>
   m_renderedHeight (CaptureFramePixels drv s) = m_renderedHeight s \<and>
   m_pendingResize (CaptureFramePixels drv s) = m_pendingResize s \<and>
   m_pendingWidth (CaptureFramePixels drv s) = m_pendingWidth s \<and>
   m_pendingHeight (CaptureFramePixels drv s) = m_pendingHeight s \<and>
   m_frameCallback (CaptureFramePixels drv s) = m_frameCallback s"
  by (simp add: CaptureFramePixels_def Let_def gpu_def)

lemma CheckPendingResize_idle:
  "\<not> m_pendingResize s \<Longrightarrow> CheckPendingResize drv s = s"
  by (simp add: CheckPendingResize_def)

lemma Present_idle:
  assumes "\<not> m_pendingResize s"
  shows "m_width (fst (Present ctx drv (s, g))) = m_width s \<and>
         m_height (fst (Present ctx drv (s, g))) = m_height s \<and>
         m_renderedWidth (fst (Present ctx drv (s, g))) = m_renderedWidth s \<and>
         m_renderedHeight (fst (Present ctx drv (s, g))) = m_renderedHeight s \<and>
         \<not> m_pendingResize (fst (Present ctx drv (s, g)))"
  using assms
  by (simp add: Present_def Let_def CheckPendingResize_idle CaptureFramePixels_frame gpu_def)

lemma Present_no_capture:
  assumes "\<not> (ctx_isDrawContext ctx \<and> readPixels_error drv = GL_NO_ERROR)"
  shows "m_pixelBuffer (fst (Present ctx drv (s, g))) = m_pixelBuffer s"
  using assms
  by (auto simp: Present_def Let_def CheckPendingResize_pixelBuffer CaptureFramePixels_error gpu_def)

lemma run_Nil: "run [] wd = wd"
  by (simp add: run_def)

lemma run_Cons: "run (op # ops) wd = run ops (step op wd)"
  by (simp add: run_def)

lemma run_append: "run (ops @ ops') wd = run ops' (run ops wd)"
  by (simp add: run_def)

lemma SetSurfaceSize_record:
  "\<exists>pw ph pr. SetSurfaceSize width height s
      = s\<lparr>m_pendingWidth := pw, m_pendingHeight := ph, m_pendingResize := pr\<rparr>"
proof (cases "width \<le> 0 \<or> height \<le> 0 \<or> (width = m_width s \<and> height = m_height s)")
  case True
  have "s = s\<lparr>m_pendingWidth := m_pendingWidth s, m_pendingHeight := m_pendingHeight s,
              m_pendingResize := m_pendingResize s\<rparr>" by simp
  moreover have "SetSurfaceSize width height s = s" using True by (auto simp: SetSurfaceSize_def)
  ultimately show ?thesis by metis
next
  case False
  then have "SetSurfaceSize width height s
      = s\<lparr>m_pendingWidth := width, m_pendingHeight := height, m_pendingResize := True\<rparr>"
    by (auto simp: SetSurfaceSize_def)
  then show ?thesis by blast
qed

lemma step_published:
  assumes "\<not> is_Present op" and "size_published w h (fst wd)"
  shows "size_published w h (fst (step op wd))"
proof (cases wd)
  case (Pair s g)
  show ?thesis
  proof (cases op)
    case (OpGetDrawContext drv)
    then show ?thesis using assms Pair GetDrawContext_published by simp
  next
    case (OpPresent draw drv)
    then show ?thesis using assms by simp
  qed (use assms Pair in \<open>auto simp: size_published_def GetResourcesUploadContext_def
         SetSurfaceSize_def MakeCurrent_def DoneCurrent_def SetFramebuffer_def set_context_def
         gpu_def Let_def split: option.splits\<close>)
qed

lemma run_published:
  assumes "\<forall>op \<in> set ops. \<not> is_Present op" and "size_published w h (fst wd)"
  shows "size_published w h (fst (run ops wd))"
  using assms
proof (induction ops arbitrary: wd)
  case Nil
  then show ?case by (simp add: run_Nil)
next
  case (Cons op ops)
  then show ?case using step_published [of op w h wd] by (simp add: run_Cons)
qed

lemma ApplyPendingResize_published:
  "size_published (m_pendingWidth s) (m_pendingHeight s) (ApplyPendingResize drv s)"
  by (simp add: ApplyPendingResize_def Let_def gpu_def size_published_def)

lemma CheckPendingResize_published:
  assumes "size_published w h s"
  shows "\<exists>w' h'. size_published w' h' (CheckPendingResize drv s)"
proof (cases "CheckPendingResize drv s = ApplyPendingResize drv (s\<lparr>m_pendingResize := False\<rparr>)")
  case True
  then show ?thesis
    using ApplyPendingResize_published [of "s\<lparr>m_pendingResize := False\<rparr>" drv] by auto
next
  case False
  then have "size_published w h (CheckPendingResize drv s)"
    using assms by (auto simp: CheckPendingResize_def Let_def size_published_def split: if_splits)
  then show ?thesis by blast
qed

lemma Present_published:
  assumes "size_published w h s"
  shows "\<exists>w' h'. size_published w' h' (fst (Present ctx drv (s, g)))"
proof -
  obtain w' h' where c: "size_published w' h' (CheckPendingResize drv s)"
    using CheckPendingResize_published [OF assms] by blast
  have "size_published w h (fst (Present ctx drv (s, g))) \<or>
        size_published w' h' (fst (Present ctx drv (s, g)))"
    using assms c
    by (simp add: Present_def Let_def size_published_def CaptureFramePixels_frame gpu_def)
  then show ?thesis by blast
qed

lemma step_published_some:
  assumes "size_published w h (fst wd)"
  shows "\<exists>w' h'. size_published w' h' (fst (step op wd))"
proof (cases "is_Present op")
  case False
  then show ?thesis using step_published [OF _ assms] by blast
next
  case True
  then obtain draw drv where op: "op = OpPresent draw drv" by (cases op) simp_all
  obtain s g where wd: "wd = (s, g)" by (cases wd)
  show ?thesis
  proof (cases "context_of draw s")
    case None
    then show ?thesis using assms op wd by auto
  next
    case (Some ctx)
    then show ?thesis using Present_published [of w h s ctx drv g] assms op wd by simp
  qed
qed

lemma run_published_some:
  assumes "size_published w h (fst wd)"
  shows "\<exists>w' h'. size_published w' h' (fst (run ops wd))"
  using assms
proof (induction ops arbitrary: wd w h)
  case Nil
  then show ?case by (auto simp: run_Nil)
next
  case (Cons op ops)
  obtain w' h' where "size_published w' h' (fst (step op wd))"
    using step_published_some [OF Cons.prems] by blast
  then show ?case using Cons.IH by (simp add: run_Cons)
qed

lemma step_idle:
  assumes "\<not> is_SetSurfaceSize op"
    and "size_published w h (fst wd) \<and> \<not> m_pendingResize (fst wd)"
  shows "size_published w h (fst (step op wd)) \<and> \<not> m_pendingResize (fst (step op wd))"
proof (cases wd)
  case (Pair s g)
  show ?thesis
  proof (cases op)
    case (OpGetDrawContext drv)
    then show ?thesis
      using assms Pair GetDrawContext_published [of w h s drv] GetDrawContext_frame [of drv s]
      by simp
  next
    case (OpPresent draw drv)
    show ?thesis
    proof (cases "context_of draw s")
      case None
      then show ?thesis using assms Pair OpPresent by simp
    next
      case (Some ctx)
      then show ?thesis
        using assms Pair OpPresent Present_idle [of s ctx drv g]
        by (simp add: size_published_def)
    qed
  next
    case (OpSetSurfaceSize x y)
    then show ?thesis using assms by simp
  qed (use assms Pair in \<open>auto simp: size_published_def GetResourcesUploadContext_def
         MakeCurrent_def DoneCurrent_def SetFramebuffer_def set_context_def
         gpu_def Let_def split: option.splits\<close>)
qed

lemma run_idle:
  assumes "\<forall>op \<in> set ops. \<not> is_SetSurfaceSize op"
    and "size_published w h (fst wd) \<and> \<not> m_pendingResize (fst wd)"
  shows "size_published w h (fst (run ops wd)) \<and> \<not> m_pendingResize (fst (run ops wd))"
  using assms
proof (induction ops arbitrary: wd)
  case Nil
  then show ?case by (simp add: run_Nil)
next
  case (Cons op ops)
  then show ?case using step_idle [of op w h wd] by (simp add: run_Cons)
qed

lemma step_no_capture:
  assumes "\<not> may_capture op" and "m_pixelBuffer (fst wd) = []"
  shows "m_pixelBuffer (fst (step op wd)) = []"
proof (cases wd)
  case (Pair s g)
  show ?thesis
  proof (cases op)
    case (OpGetDrawContext drv)
    then show ?thesis using assms Pair GetDrawContext_frame [of drv s] by simp
  next
    case (OpPresent draw drv)
    show ?thesis
    proof (cases "context_of draw s")
      case None
      then show ?thesis using assms Pair OpPresent by simp
    next
      case (Some ctx)
      have "readPixels_error drv \<noteq> GL_NO_ERROR" using assms(1) OpPresent by simp
      then have "m_pixelBuffer (fst (Present ctx drv (s, g))) = m_pixelBuffer s"
        by (intro Present_no_capture) simp
      then show ?thesis using assms Pair OpPresent Some by simp
    qed
  qed (use assms Pair in \<open>auto simp: GetResourcesUploadContext_def SetSurfaceSize_def
         MakeCurrent_def DoneCurrent_def SetFramebuffer_def set_context_def
         gpu_def Let_def split: option.splits\<close>)
qed

lemma run_no_capture:
  assumes "\<forall>op \<in> set ops. \<not> may_capture op" and "m_pixelBuffer (fst wd) = []"
  shows "m_pixelBuffer (fst (run ops wd)) = []"
  using assms
proof (induction ops arbitrary: wd)
  case Nil
  then show ?case by (simp add: run_Nil)
next
  case (Cons op ops)
  then show ?case using step_no_capture [of op wd] by (simp add: run_Cons)
qed

lemma cleanup_existing_frame:
  "w_renderedWidth (cleanup_existing s) = w_renderedWidth s \<and>
   w_renderedHeight (cleanup_existing s) = w_renderedHeight s \<and>
   w_procs (cleanup_existing s) = w_procs s \<and>
   w_interopDevice (cleanup_existing s) = 0"
  by (simp add: cleanup_existing_def Let_def wgpu_def)

lemma create_shared_frame:
  "w_renderedWidth (snd (create_shared w h drv s)) = w_renderedWidth s \<and>
   w_renderedHeight (snd (create_shared w h drv s)) = w_renderedHeight s \<and>
   w_procs (snd (create_shared w h drv s)) = w_procs s \<and>
   w_interopDevice (snd (create_shared w h drv s)) = w_interopDevice s"
  by (simp add: create_shared_def Let_def)

lemma cleanupInterop_frame:
  "w_renderedWidth (cleanupInterop s) = w_renderedWidth s \<and>
   w_renderedHeight (cleanupInterop s) = w_renderedHeight s \<and>
   w_procs (cleanupInterop s) = w_procs s \<and>
   w_interopDevice (cleanupInterop s) = w_interopDevice s \<and>
   w_stagingTexture (cleanupInterop s) = w_stagingTexture s \<and>
   w_sharedTexture (cleanupInterop s) = w_sharedTexture s"
  by (simp add: cleanupInterop_def Let_def wgpu_def)

lemma tryTextureInterop_frame:
  "w_renderedWidth (snd (tryTextureInterop drv s)) = w_renderedWidth s \<and>
   w_renderedHeight (snd (tryTextureInterop drv s)) = w_renderedHeight s \<and>
   w_procs (snd (tryTextureInterop drv s)) = w_procs s \<and>
   w_interopDevice (snd (tryTextureInterop drv s)) = w_interopDevice s \<and>
   w_stagingTexture (snd (tryTextureInterop drv s)) = w_stagingTexture s \<and>
   w_sharedTexture (snd (tryTextureInterop drv s)) = w_sharedTexture s"
  by (simp add: tryTextureInterop_def Let_def wgpu_def)

lemma tryRenderbufferInterop_frame:
  "w_renderedWidth (snd (tryRenderbufferInterop drv s)) = w_renderedWidth s \<and>
   w_renderedHeight (snd (tryRenderbufferInterop drv s)) = w_renderedHeight s \<and>
   w_procs (snd (tryRenderbufferInterop drv s)) = w_procs s \<and>
   w_interopDevice (snd (tryRenderbufferInterop drv s)) = w_interopDevice s \<and>
   w_stagingTexture (snd (tryRenderbufferInterop drv s)) = w_stagingTexture s \<and>
   w_sharedTexture (snd (tryRenderbufferInterop drv s)) = w_sharedTexture s"
  by (simp add: tryRenderbufferInterop_def Let_def wgpu_def)

lemma tryTextureInterop_fails:
  "tex_register_result drv = 0 \<Longrightarrow> \<not> fst (tryTextureInterop drv s)"
  by (simp add: tryTextureInterop_def Let_def wgpu_def)

lemma tryRenderbufferInterop_fails:
  "rb_register_result drv = 0 \<Longrightarrow> \<not> fst (tryRenderbufferInterop drv s)"
  by (simp add: tryRenderbufferInterop_def Let_def wgpu_def)

lemma interop_setup_frame:
  "w_renderedWidth (interop_setup drv s) = w_renderedWidth s \<and>
   w_renderedHeight (interop_setup drv s) = w_renderedHeight s \<and>
   w_procs (interop_setup drv s) = w_procs s \<and>
   w_stagingTexture (interop_setup drv s) = w_stagingTexture s \<and>
   w_sharedTexture (interop_setup drv s) = w_sharedTexture s"
  by (simp add: interop_setup_def Let_def split_def wgpu_def
        tryTextureInterop_frame tryRenderbufferInterop_frame cleanupInterop_frame)

lemma interop_setup_fails:
  assumes "tex_register_result drv = 0" and "rb_register_result drv = 0"
    and "w_interopDevice s = 0"
  shows "w_interopDevice (interop_setup drv s) = 0"
  using assms
  by (simp add: interop_setup_def Let_def split_def wgpu_def
        tryTextureInterop_fails tryRenderbufferInterop_fails)

lemma CreateSharedTexture_rendered:
  "w_renderedWidth (snd (CreateSharedTexture w h drv s)) = w_renderedWidth s \<and>
   w_renderedHeight (snd (CreateSharedTexture w h drv s)) = w_renderedHeight s"
  by (simp add: CreateSharedTexture_def Let_def split_def wgpu_def
        interop_setup_frame create_shared_frame cleanup_existing_frame)

lemma Wgl_SetSurfaceSize_rendered:
  "w_renderedWidth (Wgl_SetSurfaceSize w h drv s) = w_renderedWidth s \<and>
   w_renderedHeight (Wgl_SetSurfaceSize w h drv s) = w_renderedHeight s"
  by (simp add: Wgl_SetSurfaceSize_def Let_def wgpu_def CreateSharedTexture_rendered)


lemma CreateSharedTexture_registration_fails:
  assumes "tex_register_result drv = 0" and "rb_register_result drv = 0"
    and "(st_currentContext drv = w_drawGlrc s \<and> st_currentDC drv = w_hdc s) \<or> st_makeCurrent_ok drv"
  shows "w_interopDevice (snd (CreateSharedTexture w h drv s)) = 0"
proof -
  let ?s1 = "if st_currentContext drv \<noteq> w_drawGlrc s \<or> st_currentDC drv \<noteq> w_hdc s
             then wgpu [WglMakeCurrent (w_hdc s) (w_drawGlrc s)] s else s"
  have d: "w_interopDevice (snd (create_shared w h drv (cleanup_existing ?s1))) = 0"
    by (simp only: create_shared_frame cleanup_existing_frame)
  have i: "w_interopDevice (interop_setup drv (snd (create_shared w h drv (cleanup_existing ?s1)))) = 0"
    by (rule interop_setup_fails [OF assms(1,2) d])
  show ?thesis
    using assms(3) d i
    by (auto simp: CreateSharedTexture_def Let_def split_def wgpu_def)
qed

lemma useInterop_no_device: "w_interopDevice s = 0 \<Longrightarrow> \<not> useInterop s"
  by (simp add: useInterop_def)

lemma CopyToSharedTexture_cpu:
  assumes "\<not> useInterop s"
  shows "w_interopDevice (CopyToSharedTexture drv s) = w_interopDevice s \<and>
         w_stagingTexture (CopyToSharedTexture drv s) = w_stagingTexture s \<and>
         w_sharedTexture (CopyToSharedTexture drv s) = w_sharedTexture s \<and>
         w_frameCallback (CopyToSharedTexture drv s) = w_frameCallback s \<and>
         w_keepAliveCallback (CopyToSharedTexture drv s) = w_keepAliveCallback s \<and>
         w_drawContext (CopyToSharedTexture drv s) = w_drawContext s \<and>
         w_uploadContext (CopyToSharedTexture drv s) = w_uploadContext s \<and>
         length (filter interop_call (w_gpu_log (CopyToSharedTexture drv s)))
           = length (filter interop_call (w_gpu_log s)) \<and>
         length (filter readback_call (w_gpu_log (CopyToSharedTexture drv s)))
           = (if w_stagingTexture s \<and> w_sharedTexture s
              then Suc (length (filter readback_call (w_gpu_log s)))
              else length (filter readback_call (w_gpu_log s)))"
  using assms
  by (simp add: CopyToSharedTexture_def Let_def split_def wgpu_def draw_overlay_def)

lemma wgl_run_Nil: "wgl_run [] s = s"
  by (simp add: wgl_run_def)

lemma wgl_run_Cons: "wgl_run (op # ops) s = wgl_run ops (wgl_step op s)"
  by (simp add: wgl_run_def)

lemma CreateSharedTexture_ok:
  "fst (CreateSharedTexture w h drv s) \<Longrightarrow>
   w_stagingTexture (snd (CreateSharedTexture w h drv s)) \<and>
   w_sharedTexture (snd (CreateSharedTexture w h drv s))"
  by (auto simp: CreateSharedTexture_def Let_def split_def wgpu_def interop_setup_frame
        create_shared_def split: if_splits)

lemma Wgl_Present_cpu:
  assumes "\<not> useInterop s"
  shows "w_interopDevice (snd (Wgl_Present ctx drv s)) = w_interopDevice s \<and>
         w_stagingTexture (snd (Wgl_Present ctx drv s)) = w_stagingTexture s \<and>
         w_sharedTexture (snd (Wgl_Present ctx drv s)) = w_sharedTexture s \<and>
         length (filter interop_call (w_gpu_log (snd (Wgl_Present ctx drv s))))
           = length (filter interop_call (w_gpu_log s))"
  using CopyToSharedTexture_cpu [OF assms, of drv]
  by (simp add: Wgl_Present_def Wgl_OnFrameReady_def Wgl_RequestActiveFrame_def Let_def)

lemma wgl_step_cpu:
  assumes "\<not> is_resize op" and "w_interopDevice s = 0"
  shows "w_interopDevice (wgl_step op s) = 0 \<and>
         w_stagingTexture (wgl_step op s) = w_stagingTexture s \<and>
         w_sharedTexture (wgl_step op s) = w_sharedTexture s \<and>
         length (filter interop_call (w_gpu_log (wgl_step op s)))
           = length (filter interop_call (w_gpu_log s))"
proof (cases op)
  case (WOpPresent draw drv)
  have n: "\<not> useInterop s" using assms(2) by (rule useInterop_no_device)
  show ?thesis
  proof (cases "if draw then w_drawContext s else w_uploadContext s")
    case None
    then show ?thesis using WOpPresent assms(2) by simp
  next
    case (Some ctx)
    then show ?thesis
      using WOpPresent assms(2) Wgl_Present_cpu [OF n, of ctx drv]
      by (simp add: split_def)
  qed
qed (use assms in \<open>simp_all add: Wgl_GetDrawContext_def Wgl_GetResourcesUploadContext_def Let_def\<close>)

lemma wgl_run_cpu:
  assumes "\<forall>op \<in> set ops. \<not> is_resize op" and "w_interopDevice s = 0"
  shows "w_interopDevice (wgl_run ops s) = 0 \<and>
         w_stagingTexture (wgl_run ops s) = w_stagingTexture s \<and>
         w_sharedTexture (wgl_run ops s) = w_sharedTexture s \<and>
         length (filter interop_call (w_gpu_log (wgl_run ops s)))
           = length (filter interop_call (w_gpu_log s))"
  using assms
proof (induction ops arbitrary: s)
  case Nil
  then show ?case by (simp add: wgl_run_Nil)
next
  case (Cons op ops)
  then show ?case using wgl_step_cpu [of op s] by (simp add: wgl_run_Cons)
qed

lemma registrations_append: "registrations (l @ l') = registrations l + registrations l'"
  by (simp add: registrations_def)

lemma registrations_Nil: "registrations [] = 0"
  by (simp add: registrations_def)

lemma registrations_Cons:
  "registrations (c # l)
   = (if (case c of WglDXRegisterObjectNV name \<Rightarrow> True | _ \<Rightarrow> False)
      then Suc (registrations l) else registrations l)"
  by (simp add: registrations_def)

lemmas registrations_simps = registrations_append registrations_Nil registrations_Cons

lemma cleanup_existing_registrations:
  "registrations (w_gpu_log (cleanup_existing s)) = registrations (w_gpu_log s)"
  by (simp add: cleanup_existing_def Let_def wgpu_def registrations_simps)

lemma cleanupInterop_registrations:
  "registrations (w_gpu_log (cleanupInterop s)) = registrations (w_gpu_log s)"
  by (simp add: cleanupInterop_def Let_def wgpu_def registrations_simps)

lemma create_shared_fields:
  "w_gpu_log (snd (create_shared w h drv s)) = w_gpu_log s \<and>
   fst (create_shared w h drv s)
     = (CreateTexture2D_shared_ok drv \<and> As_IDXGIResource1_ok drv \<and> GetSharedHandle_ok drv
        \<and> (if ShouldEnableKeyedMutex (AGUS_MAPS_WIN_KEYED_MUTEX drv)
            then As_IDXGIKeyedMutex_ok drv else True))"
  by (simp add: create_shared_def Let_def)

lemma tryTextureInterop_registrations:
  "registrations (w_gpu_log (snd (tryTextureInterop drv s))) = Suc (registrations (w_gpu_log s))"
  by (simp add: tryTextureInterop_def Let_def wgpu_def registrations_simps)

lemma tryRenderbufferInterop_registrations:
  "registrations (w_gpu_log (snd (tryRenderbufferInterop drv s))) = Suc (registrations (w_gpu_log s))"
  by (simp add: tryRenderbufferInterop_def Let_def wgpu_def registrations_simps)

lemma interop_setup_registrations:
  assumes "wglDXOpenDeviceNV (w_procs s)" and "wglDXOpenDeviceNV_result drv \<noteq> 0"
  shows "registrations (w_gpu_log s) < registrations (w_gpu_log (interop_setup drv s))"
  using assms
  by (simp add: interop_setup_def Let_def split_def wgpu_def registrations_simps
        tryTextureInterop_registrations tryRenderbufferInterop_registrations
        cleanupInterop_registrations)

lemma CreateSharedTexture_registrations:
  assumes "reaches_registration drv s"
  shows "registrations (w_gpu_log s) < registrations (w_gpu_log (snd (CreateSharedTexture w h drv s)))"
proof -
  let ?s1 = "if st_currentContext drv \<noteq> w_drawGlrc s \<or> st_currentDC drv \<noteq> w_hdc s
             then wgpu [WglMakeCurrent (w_hdc s) (w_drawGlrc s)] s else s"
  let ?s2 = "snd (create_shared w h drv (cleanup_existing ?s1))"
  have p: "wglDXOpenDeviceNV (w_procs ?s2)"
    using assms by (simp add: create_shared_frame cleanup_existing_frame reaches_registration_def wgpu_def)
  have o: "wglDXOpenDeviceNV_result drv \<noteq> 0" using assms by (simp add: reaches_registration_def)
  have l: "registrations (w_gpu_log ?s2) = registrations (w_gpu_log s)"
    by (simp add: create_shared_fields cleanup_existing_registrations wgpu_def registrations_simps)
  have k: "registrations (w_gpu_log s) < registrations (w_gpu_log (interop_setup drv ?s2))"
    using interop_setup_registrations [OF p o] l by simp
  have ok: "fst (create_shared w h drv (cleanup_existing ?s1))"
    using assms by (simp add: create_shared_fields reaches_registration_def)
  show ?thesis
    using assms k ok
    by (auto simp: CreateSharedTexture_def Let_def split_def wgpu_def reaches_registration_def
          registrations_simps)
qed

lemma Wgl_SetSurfaceSize_registrations:
  assumes "w_width s \<noteq> width \<or> w_height s \<noteq> height" and "rs_makeCurrent_ok rd"
    and "reaches_registration (rs_shared rd) s"
  shows "registrations (w_gpu_log s) < registrations (w_gpu_log (Wgl_SetSurfaceSize width height rd s))"
proof -
  let ?pre = "wgpu [GlViewport width height, GlScissor width height, GlBindFramebuffer 0]
      (wgpu [GlBindTexture (w_renderTexture s), GlTexImage2D width height, GlBindTexture 0,
             GlBindRenderbuffer (w_depthBuffer s), GlRenderbufferStorage width height,
             GlBindRenderbuffer 0, GlBindFramebuffer (w_framebuffer s),
             GlFramebufferTexture2D (w_renderTexture s),
             GlFramebufferRenderbuffer (w_depthBuffer s), GlDrawBuffers,
             GlCheckFramebufferStatus]
         (wgpu [WglMakeCurrent (w_hdc s) (w_drawGlrc s)] s))"
  let ?s5 = "if rs_currentContext rd \<noteq> 0
             then wgpu [WglMakeCurrent (rs_currentDC rd) (rs_currentContext rd)] ?pre
             else wgpu [WglMakeCurrent 0 0] ?pre"
  let ?s6 = "?s5\<lparr>w_width := width, w_height := height\<rparr>"
  have r: "reaches_registration (rs_shared rd) ?s6"
    using assms(3) by (simp add: reaches_registration_def wgpu_def)
  have l: "registrations (w_gpu_log ?s6) = registrations (w_gpu_log s)"
    by (simp add: wgpu_def registrations_simps)
  have e: "Wgl_SetSurfaceSize width height rd s
           = snd (CreateSharedTexture width height (rs_shared rd) ?s6)"
    using assms(1,2) by (auto simp: Wgl_SetSurfaceSize_def Let_def wgpu_def)
  show ?thesis
    unfolding e using CreateSharedTexture_registrations [OF r, of width height] l by simp
qed



lemma android_first_call:
  assumes "kMinFrameInterval \<le> t0 - g_lastFrameNotification a"
    and "\<not> g_frameNotificationPending a"
    and "g_javaVM a" and "g_pluginInstance a" and "g_notifyFrameReadyMethod a"
    and "jni_reachable j0"
  shows "android_notifyFlutterFrameReady t0 j0 a
         = a\<lparr>g_lastFrameNotification := t0,
              notifyFrameReady_calls := Suc (notifyFrameReady_calls a)\<rparr>"
  using assms
  by (auto simp: android_notifyFlutterFrameReady_def Let_def CallVoidMethod_def
        jni_reachable_def split: if_splits)

lemma android_rate_limited:
  "now - g_lastFrameNotification a < kMinFrameInterval \<Longrightarrow>
   android_notifyFlutterFrameReady now jni a = a"
  by (simp add: android_notifyFlutterFrameReady_def Let_def)

lemma android_pending:
  "g_frameNotificationPending a \<Longrightarrow> android_notifyFlutterFrameReady now jni a = a"
  by (simp add: android_notifyFlutterFrameReady_def Let_def)

lemma android_burst_suppressed:
  assumes "\<forall>(t, j) \<in> set calls. t - g_lastFrameNotification a < kMinFrameInterval"
  shows "android_burst calls a = a"
  using assms
proof (induction calls)
  case Nil
  then show ?case by simp
next
  case (Cons c calls)
  obtain t j where c: "c = (t, j)" by (cases c)
  then show ?case using Cons android_rate_limited [of t a j] by simp
qed

lemma linux_notify_counts:
  "g_frameReadyCallback g \<Longrightarrow>
   frame_ready_calls (linux_notifyFlutterFrameReady g) = Suc (frame_ready_calls g) \<and>
   g_frameReadyCallback (linux_notifyFlutterFrameReady g)"
  by (simp add: linux_notifyFlutterFrameReady_def Let_def)

lemma CheckPendingResize_callbacks:
  "m_frameCallback (CheckPendingResize drv s) = m_frameCallback s \<and>
   m_drawContext (CheckPendingResize drv s) = m_drawContext s"
  by (simp add: CheckPendingResize_def ApplyPendingResize_def Let_def gpu_def)

lemma CaptureFramePixels_callbacks:
  "m_frameCallback (CaptureFramePixels drv s) = m_frameCallback s \<and>
   m_drawContext (CaptureFramePixels drv s) = m_drawContext s"
  by (simp add: CaptureFramePixels_def Let_def gpu_def)

lemma Present_notifies:
  assumes "ctx_presentAvailable ctx" and "ctx_isDrawContext ctx"
    and "m_frameCallback s = Some linux_notifyFlutterFrameReady" and "g_frameReadyCallback g"
  shows "m_frameCallback (fst (Present ctx drv (s, g))) = m_frameCallback s \<and>
         m_drawContext (fst (Present ctx drv (s, g))) = m_drawContext s \<and>
         g_frameReadyCallback (snd (Present ctx drv (s, g))) \<and>
         frame_ready_calls (snd (Present ctx drv (s, g))) = Suc (frame_ready_calls g)"
  using assms linux_notify_counts [OF assms(4)]
  by (simp add: Present_def Let_def OnFrameReady_def CheckPendingResize_callbacks
        CaptureFramePixels_callbacks gpu_def)

lemma presents_notify:
  assumes "m_drawContext s = Some ctx" and "ctx_presentAvailable ctx" and "ctx_isDrawContext ctx"
    and "m_frameCallback s = Some linux_notifyFlutterFrameReady" and "g_frameReadyCallback g"
  shows "frame_ready_calls (snd (run (map (OpPresent True) ds) (s, g)))
         = frame_ready_calls g + length ds"
  using assms
proof (induction ds arbitrary: s g)
  case Nil
  then show ?case by (simp add: run_Nil)
next
  case (Cons d ds)
  obtain s1 g1 where p: "Present ctx d (s, g) = (s1, g1)" by (cases "Present ctx d (s, g)")
  have f: "m_frameCallback s1 = m_frameCallback s \<and> m_drawContext s1 = m_drawContext s \<and>
           g_frameReadyCallback g1 \<and> frame_ready_calls g1 = Suc (frame_ready_calls g)"
    using Present_notifies [OF Cons.prems(2,3,4,5), of d] p by simp
  have "frame_ready_calls (snd (run (map (OpPresent True) ds) (s1, g1)))
        = frame_ready_calls g1 + length ds"
    using Cons.IH [of s1 g1] Cons.prems f by simp
  then show ?case using Cons.prems(1) p f by (simp add: run_Cons context_of_def)
qed

lemma example_InitializeWGL:
  "InitializeWGL example_wgl_init
     (wgl_factory_default\<lparr>w_width := 800, w_height := 600, w_overlayEnabled := True,
        w_renderedWidth := 800, w_renderedHeight := 600\<rparr>)
   = (True, example_wgl_initialised\<lparr>w_d3dDevice := False, w_d3dContext := False\<rparr>)"
  by (simp add: InitializeWGL_def example_wgl_init_def wgl_factory_default_def Let_def wgpu_def
        GL_FRAMEBUFFER_COMPLETE_def all_procs_def no_procs_def example_wgl_initialised_def)

lemma example_InitializeD3D11:
  "InitializeD3D11 example_d3d (example_wgl_initialised\<lparr>w_d3dDevice := False, w_d3dContext := False\<rparr>)
   = (True, example_wgl_initialised)"
  by (simp add: InitializeD3D11_def example_d3d_def Let_def example_wgl_initialised_def)

lemma CreateSharedTexture_succeeds:
  assumes "(st_currentContext drv = w_drawGlrc s \<and> st_currentDC drv = w_hdc s) \<or> st_makeCurrent_ok drv"
    and "CreateTexture2D_shared_ok drv" and "As_IDXGIResource1_ok drv" and "GetSharedHandle_ok drv"
    and "if ShouldEnableKeyedMutex (AGUS_MAPS_WIN_KEYED_MUTEX drv) then As_IDXGIKeyedMutex_ok drv else True"
    and "CreateTexture2D_staging_ok drv"
  shows "fst (CreateSharedTexture w h drv s)"
  using assms
  by (auto simp: CreateSharedTexture_def Let_def split_def create_shared_fields)

lemma example_constructed:
  "AgusWglContextFactory 800 600 (example_wgl r)
   = snd (CreateSharedTexture 800 600 (example_shared r) example_wgl_initialised)"
proof -
  have "fst (CreateSharedTexture 800 600 (example_shared r) example_wgl_initialised)"
    by (rule CreateSharedTexture_succeeds)
       (simp_all add: example_shared_def ShouldEnableKeyedMutex_def)
  then show ?thesis
    by (simp add: AgusWglContextFactory_def example_wgl_def ShouldEnableOverlay_def
          example_InitializeWGL example_InitializeD3D11 split_def)
qed

lemma cleanup_existing_storage:
  "filter storage_call (w_gpu_log (cleanup_existing s)) = filter storage_call (w_gpu_log s)"
  by (simp add: cleanup_existing_def Let_def wgpu_def)

lemma cleanupInterop_storage:
  "filter storage_call (w_gpu_log (cleanupInterop s)) = filter storage_call (w_gpu_log s)"
  by (simp add: cleanupInterop_def Let_def wgpu_def)

lemma tryTextureInterop_storage:
  "filter storage_call (w_gpu_log (snd (tryTextureInterop drv s))) = filter storage_call (w_gpu_log s)"
  by (simp add: tryTextureInterop_def Let_def wgpu_def)

lemma tryRenderbufferInterop_storage:
  "filter storage_call (w_gpu_log (snd (tryRenderbufferInterop drv s))) = filter storage_call (w_gpu_log s)"
  by (simp add: tryRenderbufferInterop_def Let_def wgpu_def)

lemma interop_setup_storage:
  "filter storage_call (w_gpu_log (interop_setup drv s)) = filter storage_call (w_gpu_log s)"
  by (simp add: interop_setup_def Let_def split_def wgpu_def tryTextureInterop_storage
        tryRenderbufferInterop_storage cleanupInterop_storage)

lemma CreateSharedTexture_storage:
  "filter storage_call (w_gpu_log (snd (CreateSharedTexture w h drv s)))
   = filter storage_call (w_gpu_log s)"
  by (simp add: CreateSharedTexture_def Let_def split_def wgpu_def interop_setup_storage
        create_shared_fields cleanup_existing_storage)

lemma Wgl_SetSurfaceSize_storage:
  "filter storage_call (w_gpu_log (Wgl_SetSurfaceSize width height rd s))
   = (if (w_width s = width \<and> w_height s = height) \<or> \<not> rs_makeCurrent_ok rd
      then filter storage_call (w_gpu_log s)
      else filter storage_call (w_gpu_log s)
           @ [GlTexImage2D width height, GlRenderbufferStorage width height])"
  by (simp add: Wgl_SetSurfaceSize_def Let_def wgpu_def CreateSharedTexture_storage)

lemma CreateSharedTexture_frame:
  "w_procs (snd (CreateSharedTexture w h drv s)) = w_procs s \<and>
   w_hdc (snd (CreateSharedTexture w h drv s)) = w_hdc s \<and>
   w_drawGlrc (snd (CreateSharedTexture w h drv s)) = w_drawGlrc s"
proof -
  have a: "w_hdc (cleanup_existing t) = w_hdc t \<and> w_drawGlrc (cleanup_existing t) = w_drawGlrc t" for t
    by (simp add: cleanup_existing_def Let_def wgpu_def)
  have b: "w_hdc (snd (create_shared w h drv t)) = w_hdc t \<and>
           w_drawGlrc (snd (create_shared w h drv t)) = w_drawGlrc t" for t
    by (simp add: create_shared_def Let_def)
  have c: "w_hdc (cleanupInterop t) = w_hdc t \<and> w_drawGlrc (cleanupInterop t) = w_drawGlrc t" for t
    by (simp add: cleanupInterop_def Let_def wgpu_def)
  have d: "w_hdc (snd (tryTextureInterop drv t)) = w_hdc t \<and>
           w_drawGlrc (snd (tryTextureInterop drv t)) = w_drawGlrc t" for t
    by (simp add: tryTextureInterop_def Let_def wgpu_def)
  have e: "w_hdc (snd (tryRenderbufferInterop drv t)) = w_hdc t \<and>
           w_drawGlrc (snd (tryRenderbufferInterop drv t)) = w_drawGlrc t" for t
    by (simp add: tryRenderbufferInterop_def Let_def wgpu_def)
  have f: "w_hdc (interop_setup drv t) = w_hdc t \<and> w_drawGlrc (interop_setup drv t) = w_drawGlrc t" for t
    by (simp add: interop_setup_def Let_def split_def wgpu_def c d e)
  show ?thesis
    by (simp add: CreateSharedTexture_def Let_def split_def wgpu_def interop_setup_frame
          create_shared_frame cleanup_existing_frame a b f)
qed

lemma CreateSharedTexture_size:
  "fst (CreateSharedTexture w h drv s) \<Longrightarrow>
   w_width (snd (CreateSharedTexture w h drv s)) = w \<and>
   w_height (snd (CreateSharedTexture w h drv s)) = h"
  by (auto simp: CreateSharedTexture_def Let_def split_def split: if_splits)

lemma tryTextureInterop_succeeds:
  assumes "tex_register_result drv \<noteq> 0" and "tex_lock_ok drv"
    and "tex_fb_status drv = GL_FRAMEBUFFER_COMPLETE"
  shows "fst (tryTextureInterop drv s) \<and>
         w_interopObject (snd (tryTextureInterop drv s)) = tex_register_result drv \<and>
         w_interopFramebuffer (snd (tryTextureInterop drv s)) = tex_gen_framebuffer drv"
  using assms by (simp add: tryTextureInterop_def Let_def wgpu_def)

lemma interop_setup_succeeds:
  assumes "wglDXOpenDeviceNV (w_procs s)" and "wglDXOpenDeviceNV_result drv \<noteq> 0"
    and "tex_register_result drv \<noteq> 0" and "tex_lock_ok drv"
    and "tex_fb_status drv = GL_FRAMEBUFFER_COMPLETE"
  shows "w_interopDevice (interop_setup drv s) = wglDXOpenDeviceNV_result drv \<and>
         w_interopObject (interop_setup drv s) = tex_register_result drv \<and>
         w_interopFramebuffer (interop_setup drv s) = tex_gen_framebuffer drv"
  using assms(1,2)
    tryTextureInterop_succeeds [OF assms(3,4,5),
      of "(wgpu [WglDXOpenDeviceNV] s)\<lparr>w_interopDevice := wglDXOpenDeviceNV_result drv\<rparr>"]
    tryTextureInterop_frame [of drv
      "(wgpu [WglDXOpenDeviceNV] s)\<lparr>w_interopDevice := wglDXOpenDeviceNV_result drv\<rparr>"]
  by (simp add: interop_setup_def Let_def split_def)

lemma CreateSharedTexture_interop:
  assumes "reaches_registration drv s"
    and "tex_register_result drv \<noteq> 0" and "tex_lock_ok drv"
    and "tex_fb_status drv = GL_FRAMEBUFFER_COMPLETE" and "tex_gen_framebuffer drv \<noteq> 0"
    and "wglDXLockObjectsNV (w_procs s)" and "wglDXUnlockObjectsNV (w_procs s)"
  shows "useInterop (snd (CreateSharedTexture w h drv s))"
proof -
  let ?s1 = "if st_currentContext drv \<noteq> w_drawGlrc s \<or> st_currentDC drv \<noteq> w_hdc s
             then wgpu [WglMakeCurrent (w_hdc s) (w_drawGlrc s)] s else s"
  let ?s2 = "snd (create_shared w h drv (cleanup_existing ?s1))"
  have p: "w_procs ?s2 = w_procs s"
    by (simp add: create_shared_frame cleanup_existing_frame wgpu_def)
  have o: "wglDXOpenDeviceNV (w_procs ?s2)" "wglDXOpenDeviceNV_result drv \<noteq> 0"
    using assms(1) p by (simp_all add: reaches_registration_def)
  note i = interop_setup_succeeds [OF o assms(2,3,4)]
  have ok: "fst (create_shared w h drv (cleanup_existing ?s1))"
    using assms(1) by (simp add: create_shared_fields reaches_registration_def)
  have q: "w_procs (interop_setup drv ?s2) = w_procs s"
    using p by (simp add: interop_setup_frame)
  have "useInterop (interop_setup drv ?s2)"
    using i q assms o by (simp add: useInterop_def)
  then show ?thesis
    using assms(1) ok
    by (auto simp: CreateSharedTexture_def Let_def split_def wgpu_def reaches_registration_def
          useInterop_def)
qed

lemma Wgl_SetSurfaceSize_resized:
  assumes "w_width s \<noteq> width \<or> w_height s \<noteq> height" and "rs_makeCurrent_ok rd"
  shows "\<exists>s6. Wgl_SetSurfaceSize width height rd s
              = snd (CreateSharedTexture width height (rs_shared rd) s6) \<and>
            w_procs s6 = w_procs s \<and> w_hdc s6 = w_hdc s \<and> w_drawGlrc s6 = w_drawGlrc s"
  using assms by (auto simp: Wgl_SetSurfaceSize_def Let_def wgpu_def)

lemma Wgl_SetSurfaceSize_interop:
  assumes "w_width s \<noteq> width \<or> w_height s \<noteq> height" and "rs_makeCurrent_ok rd"
    and "reaches_registration (rs_shared rd) s"
    and "tex_register_result (rs_shared rd) \<noteq> 0" and "tex_lock_ok (rs_shared rd)"
    and "tex_fb_status (rs_shared rd) = GL_FRAMEBUFFER_COMPLETE"
    and "tex_gen_framebuffer (rs_shared rd) \<noteq> 0"
    and "wglDXLockObjectsNV (w_procs s)" and "wglDXUnlockObjectsNV (w_procs s)"
  shows "useInterop (Wgl_SetSurfaceSize width height rd s)"
proof -
  obtain s6 where e: "Wgl_SetSurfaceSize width height rd s
              = snd (CreateSharedTexture width height (rs_shared rd) s6)"
    and f: "w_procs s6 = w_procs s" "w_hdc s6 = w_hdc s" "w_drawGlrc s6 = w_drawGlrc s"
    using Wgl_SetSurfaceSize_resized [OF assms(1,2)] by blast
  have r: "reaches_registration (rs_shared rd) s6"
    using assms(3) f by (simp add: reaches_registration_def)
  show ?thesis
    unfolding e
    by (rule CreateSharedTexture_interop [OF r assms(4,5,6,7)]) (simp_all add: f assms(8,9))
qed

lemma CopyToSharedTexture_interop:
  assumes "useInterop s"
  shows "filter readback_call (w_gpu_log (CopyToSharedTexture fr s))
         = filter readback_call (w_gpu_log s)"
  using assms
  by (simp add: CopyToSharedTexture_def Let_def split_def wgpu_def draw_overlay_def)

lemma example_wgl_facts:
  "w_width (AgusWglContextFactory 800 600 (example_wgl r)) = 800 \<and>
   w_height (AgusWglContextFactory 800 600 (example_wgl r)) = 600 \<and>
   w_procs (AgusWglContextFactory 800 600 (example_wgl r)) = all_procs \<and>
   filter storage_call (w_gpu_log (AgusWglContextFactory 800 600 (example_wgl r)))
     = [GlTexImage2D 800 600, GlRenderbufferStorage 800 600]"
proof -
  have ok: "fst (CreateSharedTexture 800 600 (example_shared r) example_wgl_initialised)"
    by (rule CreateSharedTexture_succeeds)
       (simp_all add: example_shared_def ShouldEnableKeyedMutex_def)
  have "w_procs example_wgl_initialised = all_procs"
    by (simp add: example_wgl_initialised_def)
  moreover have "filter storage_call (w_gpu_log example_wgl_initialised)
                 = [GlTexImage2D 800 600, GlRenderbufferStorage 800 600]"
    by (simp add: example_wgl_initialised_def)
  ultimately show ?thesis
    unfolding example_constructed
    using CreateSharedTexture_size [OF ok] CreateSharedTexture_frame CreateSharedTexture_storage
    by simp
qed

lemmas egl_eval =
  AgusEglContextFactory_def InitializeEGL_def select_display_def choose_config_def
  create_surfaces_def create_contexts_def factory_default_def example_egl_def example_fb_def
  example_present_def example_glue_def
  EGL_NO_DISPLAY_def EGL_NO_SURFACE_def EGL_NO_CONTEXT_def EGL_PBUFFER_BIT_def
  GL_FRAMEBUFFER_COMPLETE_def GL_NO_ERROR_def Let_def
  run_def context_of_def set_context_def GetDrawContext_def CreateFramebuffer_def gpu_def
  GetResourcesUploadContext_def SetSurfaceSize_def CheckPendingResize_def
  ApplyPendingResize_def Present_def CaptureFramePixels_def OnFrameReady_def
  glReadPixels_def vector_resize_def flip_loop.simps memcpy_def
  GetRenderedWidth_def GetRenderedHeight_def IsValid_def
  linux_notifyFlutterFrameReady_def

lemma example_captured_buffer: "m_pixelBuffer example_captured = [5, 6, 7, 8, 1, 2, 3, 4]"
  by (simp add: example_captured_def egl_eval)

section \<open>The claims\<close>

subsection \<open>C1: a resize request does not touch the GPU\<close>

text \<open>
  Claim C1, as the code has it. On the EGL factory, \<^verbatim>\<open>SetSurfaceSize\<close> appends nothing
  to the GPU log (no context is made current, no storage is reallocated), changes no field
  but the pending-resize record, and leaves the rendered size as it is; from any state that
  the constructor and a sequence of entry points reach, the rendered size stays the same
  through the request and through every following entry point that is not
  \<^verbatim>\<open>Present\<close>. On the WGL factory \<^verbatim>\<open>SetSurfaceSize\<close> leaves the published
  rendered size unchanged as well. What the WGL factory does not do is defer the GPU work:
  see the counterexample.
\<close>

theorem SetSurfaceSize_is_deferred:
  assumes "\<forall>op \<in> set ops. \<not> is_Present op"
  shows "gpu_log (SetSurfaceSize width height s) = gpu_log s \<and>
         (\<exists>pw ph pr. SetSurfaceSize width height s
            = s\<lparr>m_pendingWidth := pw, m_pendingHeight := ph, m_pendingResize := pr\<rparr>) \<and>
         GetRenderedWidth (SetSurfaceSize width height s) = GetRenderedWidth s \<and>
         GetRenderedHeight (SetSurfaceSize width height s) = GetRenderedHeight s \<and>
         GetRenderedWidth (fst (run (OpSetSurfaceSize width height # ops)
             (run before (AgusEglContextFactory initialWidth initialHeight drv, g))))
           = GetRenderedWidth (fst (run before (AgusEglContextFactory initialWidth initialHeight drv, g))) \<and>
         GetRenderedHeight (fst (run (OpSetSurfaceSize width height # ops)
             (run before (AgusEglContextFactory initialWidth initialHeight drv, g))))
           = GetRenderedHeight (fst (run before (AgusEglContextFactory initialWidth initialHeight drv, g))) \<and>
         w_renderedWidth (Wgl_SetSurfaceSize width height rd t) = w_renderedWidth t \<and>
         w_renderedHeight (Wgl_SetSurfaceSize width height rd t) = w_renderedHeight t"
proof -
  let ?wd = "run before (AgusEglContextFactory initialWidth initialHeight drv, g)"
  have 1: "gpu_log (SetSurfaceSize width height s) = gpu_log s"
    by (simp add: SetSurfaceSize_def)
  have 3: "GetRenderedWidth (SetSurfaceSize width height s) = GetRenderedWidth s \<and>
           GetRenderedHeight (SetSurfaceSize width height s) = GetRenderedHeight s"
    by (simp add: SetSurfaceSize_def GetRenderedWidth_def GetRenderedHeight_def)
  have "size_published initialWidth initialHeight (fst (AgusEglContextFactory initialWidth initialHeight drv, g))"
    using constructor_facts [of initialWidth initialHeight drv] by simp
  then obtain w h where p: "size_published w h (fst ?wd)"
    using run_published_some by blast
  have np: "\<forall>op \<in> set (OpSetSurfaceSize width height # ops). \<not> is_Present op"
    using assms by simp
  have "size_published w h (fst (run (OpSetSurfaceSize width height # ops) ?wd))"
    by (rule run_published [OF np p])
  then have 4: "GetRenderedWidth (fst (run (OpSetSurfaceSize width height # ops) ?wd))
                  = GetRenderedWidth (fst ?wd) \<and>
                GetRenderedHeight (fst (run (OpSetSurfaceSize width height # ops) ?wd))
                  = GetRenderedHeight (fst ?wd)"
    using p by (simp add: size_published_def GetRenderedWidth_def GetRenderedHeight_def)
  show ?thesis
    using 1 SetSurfaceSize_record [of width height s] 3 4
      Wgl_SetSurfaceSize_rendered [of width height rd t]
    by (intro conjI) simp_all
qed

text \<open>
  The theorem at a factory of size 800 x 600 that is asked for 400 x 300 and then for its
  draw context.
\<close>

theorem SetSurfaceSize_is_deferred_witness:
  "\<not> is_Present (OpGetDrawContext (example_fb GL_FRAMEBUFFER_COMPLETE)) \<and>
   gpu_log (SetSurfaceSize 400 300 (AgusEglContextFactory 800 600 example_egl))
     = gpu_log (AgusEglContextFactory 800 600 example_egl) \<and>
   GetRenderedWidth (fst (run [OpSetSurfaceSize 400 300,
        OpGetDrawContext (example_fb GL_FRAMEBUFFER_COMPLETE)]
        (run [] (AgusEglContextFactory 800 600 example_egl, example_glue))))
     = GetRenderedWidth (fst (run [] (AgusEglContextFactory 800 600 example_egl, example_glue))) \<and>
   w_renderedWidth (Wgl_SetSurfaceSize 400 300 (example_resize GL_FRAMEBUFFER_COMPLETE 0)
        (AgusWglContextFactory 800 600 (example_wgl 0)))
     = w_renderedWidth (AgusWglContextFactory 800 600 (example_wgl 0))"
proof -
  have h: "\<forall>op \<in> set [OpGetDrawContext (example_fb GL_FRAMEBUFFER_COMPLETE)]. \<not> is_Present op"
    by simp
  from SetSurfaceSize_is_deferred [OF h, where width = 400 and height = 300
      and s = "AgusEglContextFactory 800 600 example_egl" and before = "[]"
      and initialWidth = 800 and initialHeight = 600 and drv = example_egl and g = example_glue
      and rd = "example_resize GL_FRAMEBUFFER_COMPLETE 0"
      and t = "AgusWglContextFactory 800 600 (example_wgl 0)"]
  show ?thesis by simp
qed

text \<open>
  C1 as stated fails on the WGL factory: its \<^verbatim>\<open>SetSurfaceSize\<close> reallocates the
  storage of the texture and of the renderbuffer at once. After the constructor the log holds
  the two allocations at 800 x 600; after \<open>SetSurfaceSize 400 300\<close> it holds two more.
\<close>

theorem wgl_resize_touches_gpu_counterexample:
  "filter storage_call (w_gpu_log (AgusWglContextFactory 800 600 (example_wgl 0)))
     = [GlTexImage2D 800 600, GlRenderbufferStorage 800 600] \<and>
   filter storage_call (w_gpu_log (Wgl_SetSurfaceSize 400 300
        (example_resize GL_FRAMEBUFFER_COMPLETE 0) (AgusWglContextFactory 800 600 (example_wgl 0))))
     = [GlTexImage2D 800 600, GlRenderbufferStorage 800 600,
        GlTexImage2D 400 300, GlRenderbufferStorage 400 300]"
  using example_wgl_facts [of 0]
  by (simp add: Wgl_SetSurfaceSize_storage example_resize_def)

subsection \<open>C2: coalescing of resize requests\<close>

text \<open>
  Claim C2 says that of several requests between two \<^verbatim>\<open>Present\<close>s the last one is
  applied. The EGL \<^verbatim>\<open>SetSurfaceSize\<close> returns early when the requested size is the
  current one and leaves an earlier pending request in place. A factory of size 2 x 2 is
  asked for 1 x 1 and then for 2 x 2 again; the next \<^verbatim>\<open>Present\<close> applies 1 x 1.
\<close>

theorem last_size_lost_when_it_is_the_current_size:
  "GetRenderedWidth (fst (run [OpGetDrawContext (example_fb GL_FRAMEBUFFER_COMPLETE),
           OpSetSurfaceSize 1 1, OpSetSurfaceSize 2 2,
           OpPresent True (example_present GL_FRAMEBUFFER_COMPLETE [1, 2, 3, 4] 0)]
          (AgusEglContextFactory 2 2 example_egl, example_glue))) = 1 \<and>
   GetRenderedHeight (fst (run [OpGetDrawContext (example_fb GL_FRAMEBUFFER_COMPLETE),
           OpSetSurfaceSize 1 1, OpSetSurfaceSize 2 2,
           OpPresent True (example_present GL_FRAMEBUFFER_COMPLETE [1, 2, 3, 4] 0)]
          (AgusEglContextFactory 2 2 example_egl, example_glue))) = 1"
  by (simp add: egl_eval)

subsection \<open>C3: frame-ready notifications\<close>

text \<open>
  Claim C3, as the code has it. The Android \<^verbatim>\<open>notifyFlutterFrameReady\<close> limits the
  rate: when the first call of a burst comes at least 16 ms after the last delivered
  notification, finds none pending and reaches the Java method, and every other call of the
  burst comes less than 16 ms after the first, the burst delivers exactly one notification;
  and a call that finds a notification pending changes nothing. The Linux
  \<^verbatim>\<open>notifyFlutterFrameReady\<close>, the one that \<^verbatim>\<open>Present\<close> of the EGL draw context
  reaches, has no limit: \<open>K\<close> \<^verbatim>\<open>Present\<close>s deliver \<open>K\<close> notifications.
\<close>

theorem frame_ready_notifications:
  assumes "kMinFrameInterval \<le> t0 - g_lastFrameNotification a"
    and "\<not> g_frameNotificationPending a"
    and "g_javaVM a" and "g_pluginInstance a" and "g_notifyFrameReadyMethod a"
    and "jni_reachable j0"
    and "\<forall>(t, j) \<in> set calls. t - t0 < kMinFrameInterval"
    and "g_frameNotificationPending a'"
    and "m_drawContext s = Some ctx" and "ctx_presentAvailable ctx" and "ctx_isDrawContext ctx"
    and "m_frameCallback s = Some linux_notifyFlutterFrameReady" and "g_frameReadyCallback g"
  shows "notifyFrameReady_calls (android_burst ((t0, j0) # calls) a)
           = Suc (notifyFrameReady_calls a) \<and>
         android_notifyFlutterFrameReady now jni a' = a' \<and>
         frame_ready_calls (snd (run (map (OpPresent True) ds) (s, g)))
           = frame_ready_calls g + length ds"
proof -
  let ?a1 = "a\<lparr>g_lastFrameNotification := t0,
                notifyFrameReady_calls := Suc (notifyFrameReady_calls a)\<rparr>"
  have "\<forall>(t, j) \<in> set calls. t - g_lastFrameNotification ?a1 < kMinFrameInterval"
    using assms(7) by simp
  then have "android_burst calls ?a1 = ?a1" by (rule android_burst_suppressed)
  then have 1: "notifyFrameReady_calls (android_burst ((t0, j0) # calls) a)
                = Suc (notifyFrameReady_calls a)"
    using android_first_call [OF assms(1-6)] by simp
  show ?thesis
    using 1 android_pending [OF assms(8)] presents_notify [OF assms(9-13)] by simp
qed

text \<open>
  The theorem at a burst of three calls at 16 ms, 17 ms and 31.999999 ms after the last
  notification, and at two \<^verbatim>\<open>Present\<close>s on a factory of size 1 x 1.
\<close>

theorem frame_ready_notifications_witness:
  "kMinFrameInterval \<le> 16000000 - g_lastFrameNotification example_android \<and>
   jni_reachable example_jni \<and>
   notifyFrameReady_calls (android_burst
       [(16000000, example_jni), (17000000, example_jni), (31999999, example_jni)]
       example_android) = Suc (notifyFrameReady_calls example_android) \<and>
   android_notifyFlutterFrameReady 99000000 example_jni
       (example_android\<lparr>g_frameNotificationPending := True\<rparr>)
     = example_android\<lparr>g_frameNotificationPending := True\<rparr> \<and>
   frame_ready_calls (snd (run (map (OpPresent True)
       [example_present GL_FRAMEBUFFER_COMPLETE [1, 2, 3, 4] 0,
        example_present GL_FRAMEBUFFER_COMPLETE [5, 6, 7, 8] 0])
       (example_notifying, example_glue)))
     = frame_ready_calls example_glue + 2"
proof -
  have a1: "kMinFrameInterval \<le> 16000000 - g_lastFrameNotification example_android"
    by (simp add: kMinFrameInterval_def example_android_def)
  have a2: "\<not> g_frameNotificationPending example_android" "g_javaVM example_android"
    "g_pluginInstance example_android" "g_notifyFrameReadyMethod example_android"
    by (simp_all add: example_android_def)
  have a3: "jni_reachable example_jni"
    by (simp add: jni_reachable_def example_jni_def JNI_EDETACHED_def)
  have a4: "\<forall>(t, j) \<in> set [(17000000, example_jni), (31999999, example_jni)].
              t - 16000000 < kMinFrameInterval"
    by (simp add: kMinFrameInterval_def)
  have a5: "g_frameNotificationPending (example_android\<lparr>g_frameNotificationPending := True\<rparr>)"
    by simp
  have l1: "m_drawContext example_notifying = Some example_draw_context"
    by (simp add: example_notifying_def example_draw_context_def egl_eval)
  have l2: "ctx_presentAvailable example_draw_context" "ctx_isDrawContext example_draw_context"
    by (simp_all add: example_draw_context_def)
  have l3: "m_frameCallback example_notifying = Some linux_notifyFlutterFrameReady"
    by (simp add: example_notifying_def)
  have l4: "g_frameReadyCallback example_glue" by (simp add: example_glue_def)
  from frame_ready_notifications [OF a1 a2 a3 a4 a5 l1 l2 l3 l4,
      of 99000000 example_jni
         "[example_present GL_FRAMEBUFFER_COMPLETE [1, 2, 3, 4] 0,
           example_present GL_FRAMEBUFFER_COMPLETE [5, 6, 7, 8] 0]"]
  show ?thesis using a1 a3 by simp
qed

text \<open>
  C3 as stated fails on the Linux path: two \<^verbatim>\<open>Present\<close>s in a row, whatever the time
  between them, deliver two notifications.
\<close>

theorem every_present_notifies_counterexample:
  "frame_ready_calls (snd (run [OpGetDrawContext (example_fb GL_FRAMEBUFFER_COMPLETE),
           OpSetFrameCallback (Some linux_notifyFlutterFrameReady),
           OpPresent True (example_present GL_FRAMEBUFFER_COMPLETE [1, 2, 3, 4] 0),
           OpPresent True (example_present GL_FRAMEBUFFER_COMPLETE [5, 6, 7, 8] 0)]
          (AgusEglContextFactory 1 1 example_egl, example_glue))) = 2"
  by (simp add: egl_eval)

subsection \<open>C4: fallback to the CPU path after a failed registration\<close>

text \<open>
  Claim C4, as the code has it. When both \<^verbatim>\<open>wglDXRegisterObjectNV\<close> calls of a run of
  \<^verbatim>\<open>CreateSharedTexture\<close> return null (and the run could make the GL context
  current), then after any sequence of entry points without a resize the zero-copy path is
  not selected, the log has gained no interop call (open, register, lock, blit), and, when
  the run succeeded, the next frame reads the pixels back. The fallback lasts until the next
  resize and no longer: a \<^verbatim>\<open>SetSurfaceSize\<close> with a new size that gets as far as the
  registration registers again.
\<close>

theorem interop_fallback_until_resize:
  assumes "tex_register_result drv = 0" and "rb_register_result drv = 0"
    and "(st_currentContext drv = w_drawGlrc s \<and> st_currentDC drv = w_hdc s) \<or> st_makeCurrent_ok drv"
    and "\<forall>op \<in> set ops. \<not> is_resize op"
  shows "\<not> useInterop (wgl_run ops (snd (CreateSharedTexture width height drv s))) \<and>
         length (filter interop_call
                   (w_gpu_log (wgl_run ops (snd (CreateSharedTexture width height drv s)))))
           = length (filter interop_call (w_gpu_log (snd (CreateSharedTexture width height drv s)))) \<and>
         (if fst (CreateSharedTexture width height drv s)
          then length (filter readback_call
                   (w_gpu_log (CopyToSharedTexture fr
                      (wgl_run ops (snd (CreateSharedTexture width height drv s))))))
               = Suc (length (filter readback_call
                   (w_gpu_log (wgl_run ops (snd (CreateSharedTexture width height drv s))))))
          else True) \<and>
         (if (w_width t \<noteq> width' \<or> w_height t \<noteq> height') \<and> rs_makeCurrent_ok rd \<and>
             reaches_registration (rs_shared rd) t
          then registrations (w_gpu_log t)
               < registrations (w_gpu_log (Wgl_SetSurfaceSize width' height' rd t))
          else True)"
proof -
  let ?s' = "snd (CreateSharedTexture width height drv s)"
  have d: "w_interopDevice ?s' = 0"
    by (rule CreateSharedTexture_registration_fails [OF assms(1,2,3)])
  note r = wgl_run_cpu [OF assms(4) d]
  have n: "\<not> useInterop (wgl_run ops ?s')" using r by (simp add: useInterop_no_device)
  have c: "fst (CreateSharedTexture width height drv s) \<Longrightarrow>
           length (filter readback_call (w_gpu_log (CopyToSharedTexture fr (wgl_run ops ?s'))))
           = Suc (length (filter readback_call (w_gpu_log (wgl_run ops ?s'))))"
    using CopyToSharedTexture_cpu [OF n, of fr] r CreateSharedTexture_ok [of width height drv s]
    by simp
  show ?thesis
    using n r c Wgl_SetSurfaceSize_registrations [of t width' height' rd] by simp
qed

text \<open>
  The theorem at the example factory, whose registrations fail, followed by a frame; and at
  a resize of the constructed factory to 400 x 300.
\<close>

theorem interop_fallback_until_resize_witness:
  "tex_register_result (example_shared 0) = 0 \<and> rb_register_result (example_shared 0) = 0 \<and>
   \<not> is_resize (WOpPresent True example_frame) \<and>
   \<not> useInterop (wgl_run [WOpGetDrawContext, WOpPresent True example_frame]
        (snd (CreateSharedTexture 800 600 (example_shared 0) example_wgl_initialised))) \<and>
   length (filter interop_call (w_gpu_log (wgl_run [WOpGetDrawContext, WOpPresent True example_frame]
        (snd (CreateSharedTexture 800 600 (example_shared 0) example_wgl_initialised)))))
     = length (filter interop_call (w_gpu_log
        (snd (CreateSharedTexture 800 600 (example_shared 0) example_wgl_initialised)))) \<and>
   registrations (w_gpu_log (AgusWglContextFactory 800 600 (example_wgl 0)))
     < registrations (w_gpu_log (Wgl_SetSurfaceSize 400 300
         (example_resize GL_FRAMEBUFFER_COMPLETE 0)
         (AgusWglContextFactory 800 600 (example_wgl 0))))"
proof -
  let ?W = "AgusWglContextFactory 800 600 (example_wgl 0)"
  let ?R = "example_resize GL_FRAMEBUFFER_COMPLETE 0"
  have h1: "tex_register_result (example_shared 0) = 0"
    and h2: "rb_register_result (example_shared 0) = 0"
    by (simp_all add: example_shared_def)
  have h3: "(st_currentContext (example_shared 0) = w_drawGlrc example_wgl_initialised \<and>
             st_currentDC (example_shared 0) = w_hdc example_wgl_initialised) \<or>
            st_makeCurrent_ok (example_shared 0)"
    by (simp add: example_shared_def)
  have h4: "\<forall>op \<in> set [WOpGetDrawContext, WOpPresent True example_frame]. \<not> is_resize op"
    by simp
  have c: "(w_width ?W \<noteq> 400 \<or> w_height ?W \<noteq> 300) \<and> rs_makeCurrent_ok ?R \<and>
           reaches_registration (rs_shared ?R) ?W"
    using example_wgl_facts [of 0]
    by (simp add: reaches_registration_def example_resize_def example_shared_def
          ShouldEnableKeyedMutex_def all_procs_def)
  from interop_fallback_until_resize [OF h1 h2 h3 h4, where width = 800 and height = 600
      and fr = example_frame and t = ?W and width' = 400 and height' = 300 and rd = ?R]
  show ?thesis using h1 h2 c by simp
qed

text \<open>
  C4 as stated fails: the fallback is not permanent. The constructor's registrations fail
  and the zero-copy path is off; on the resize to 400 x 300 the registration is tried
  again, succeeds, and the zero-copy path is on.
\<close>

theorem registration_retried_on_resize_counterexample:
  "tex_register_result (shared_init (example_wgl 0)) = 0 \<and>
   rb_register_result (shared_init (example_wgl 0)) = 0 \<and>
   \<not> useInterop (AgusWglContextFactory 800 600 (example_wgl 0)) \<and>
   useInterop (Wgl_SetSurfaceSize 400 300 (example_resize GL_FRAMEBUFFER_COMPLETE 9)
       (AgusWglContextFactory 800 600 (example_wgl 0))) \<and>
   registrations (w_gpu_log (AgusWglContextFactory 800 600 (example_wgl 0)))
     < registrations (w_gpu_log (Wgl_SetSurfaceSize 400 300
         (example_resize GL_FRAMEBUFFER_COMPLETE 9)
         (AgusWglContextFactory 800 600 (example_wgl 0))))"
proof -
  let ?W = "AgusWglContextFactory 800 600 (example_wgl 0)"
  let ?R = "example_resize GL_FRAMEBUFFER_COMPLETE 9"
  have 1: "tex_register_result (shared_init (example_wgl 0)) = 0 \<and>
           rb_register_result (shared_init (example_wgl 0)) = 0"
    by (simp add: example_wgl_def example_shared_def)
  have "w_interopDevice ?W = 0"
    unfolding example_constructed
    by (rule CreateSharedTexture_registration_fails) (simp_all add: example_shared_def)
  then have 2: "\<not> useInterop ?W" by (rule useInterop_no_device)
  have d: "w_width ?W \<noteq> 400 \<or> w_height ?W \<noteq> 300" using example_wgl_facts [of 0] by simp
  have m: "rs_makeCurrent_ok ?R" by (simp add: example_resize_def)
  have r: "reaches_registration (rs_shared ?R) ?W"
    using example_wgl_facts [of 0]
    by (simp add: reaches_registration_def example_resize_def example_shared_def
          ShouldEnableKeyedMutex_def all_procs_def)
  have 3: "useInterop (Wgl_SetSurfaceSize 400 300 ?R ?W)"
    by (rule Wgl_SetSurfaceSize_interop [OF d m r])
       (use example_wgl_facts [of 0] in \<open>simp_all add: example_resize_def example_shared_def
          GL_FRAMEBUFFER_COMPLETE_def all_procs_def\<close>)
  have 4: "registrations (w_gpu_log ?W)
           < registrations (w_gpu_log (Wgl_SetSurfaceSize 400 300 ?R ?W))"
    by (rule Wgl_SetSurfaceSize_registrations [OF d m r])
  show ?thesis using 1 2 3 4 by (intro conjI) simp_all
qed

subsection \<open>C5: an incomplete framebuffer\<close>




subsection \<open>C6: copying before the first frame\<close>

text \<open>
  Claim C6. After the constructor and any sequence of entry points in which no
  \<^verbatim>\<open>Present\<close> had a readback without error, \<^verbatim>\<open>CopyToPixelBuffer\<close> returns false
  and the destination is what it was, for every destination and size; and the call leaves
  the GPU log as it is.
\<close>

theorem copy_before_first_capture:
  assumes "\<forall>op \<in> set ops. \<not> may_capture op"
  shows "CopyToPixelBuffer (fst (run ops (AgusEglContextFactory width height drv, g)))
           buffer bufferSize = (False, buffer) \<and>
         gpu_log (fst (step (OpCopyToPixelBuffer buffer bufferSize)
                    (run ops (AgusEglContextFactory width height drv, g))))
           = gpu_log (fst (run ops (AgusEglContextFactory width height drv, g)))"
proof -
  have "m_pixelBuffer (fst (AgusEglContextFactory width height drv, g)) = []"
    using constructor_facts [of width height drv] by simp
  from run_no_capture [OF assms this]
  have e: "m_pixelBuffer (fst (run ops (AgusEglContextFactory width height drv, g))) = []" .
  have 1: "CopyToPixelBuffer (fst (run ops (AgusEglContextFactory width height drv, g)))
           buffer bufferSize = (False, buffer)"
    using e by (simp add: CopyToPixelBuffer_def split: option.split)
  have 2: "fst (step (OpCopyToPixelBuffer buffer bufferSize) wd) = fst wd" for wd
    by (cases wd) simp
  show ?thesis using 1 2 by simp
qed

text \<open>The theorem after a \<^verbatim>\<open>Present\<close> whose readback failed, with a destination of two bytes.\<close>

theorem copy_before_first_capture_witness:
  "\<not> may_capture (OpPresent True (example_present GL_FRAMEBUFFER_COMPLETE [] 1282)) \<and>
   CopyToPixelBuffer (fst (run [OpGetDrawContext (example_fb GL_FRAMEBUFFER_COMPLETE),
        OpPresent True (example_present GL_FRAMEBUFFER_COMPLETE [] 1282)]
        (AgusEglContextFactory 800 600 example_egl, example_glue))) (Some [7, 7]) 2
     = (False, Some [7, 7])"
proof -
  have n: "\<forall>op \<in> set [OpGetDrawContext (example_fb GL_FRAMEBUFFER_COMPLETE),
        OpPresent True (example_present GL_FRAMEBUFFER_COMPLETE [] 1282)]. \<not> may_capture op"
    by (simp add: example_present_def GL_NO_ERROR_def)
  from copy_before_first_capture [OF n, of 800 600 example_egl example_glue "Some [7, 7]" 2]
  show ?thesis using n by simp
qed

subsection \<open>C7: the vertical flip\<close>



subsection \<open>C8: the rendered size after construction\<close>

text \<open>
  Claim C8. For positive \<open>width\<close> and \<open>height\<close>, a factory whose construction succeeded
  answers \<open>width\<close> and \<open>height\<close> to \<^verbatim>\<open>GetRenderedWidth\<close> and
  \<^verbatim>\<open>GetRenderedHeight\<close>, at once and after any sequence of entry points without a
  resize request.
\<close>

theorem rendered_size_after_initialize:
  assumes "0 < width" and "0 < height"
    and "IsValid (AgusEglContextFactory width height drv)"
    and "\<forall>op \<in> set ops. \<not> is_SetSurfaceSize op"
  shows "GetRenderedWidth (fst (run ops (AgusEglContextFactory width height drv, g))) = width \<and>
         GetRenderedHeight (fst (run ops (AgusEglContextFactory width height drv, g))) = height"
proof -
  have "size_published width height (fst (AgusEglContextFactory width height drv, g)) \<and>
        \<not> m_pendingResize (fst (AgusEglContextFactory width height drv, g))"
    using constructor_facts [of width height drv] by simp
  from run_idle [OF assms(4) this]
  show ?thesis by (simp add: size_published_def GetRenderedWidth_def GetRenderedHeight_def)
qed

text \<open>The theorem at 800 x 600, after the contexts were created.\<close>

theorem rendered_size_after_initialize_witness:
  "(0::int) < 800 \<and> (0::int) < 600 \<and> IsValid (AgusEglContextFactory 800 600 example_egl) \<and>
   GetRenderedWidth (fst (run [OpGetDrawContext (example_fb GL_FRAMEBUFFER_COMPLETE),
        OpGetResourcesUploadContext, OpMakeCurrent True True]
        (AgusEglContextFactory 800 600 example_egl, example_glue))) = 800 \<and>
   GetRenderedHeight (fst (run [OpGetDrawContext (example_fb GL_FRAMEBUFFER_COMPLETE),
        OpGetResourcesUploadContext, OpMakeCurrent True True]
        (AgusEglContextFactory 800 600 example_egl, example_glue))) = 600"
proof -
  have v: "IsValid (AgusEglContextFactory 800 600 example_egl)"
    by (simp add: egl_eval)
  have n: "\<forall>op \<in> set [OpGetDrawContext (example_fb GL_FRAMEBUFFER_COMPLETE),
        OpGetResourcesUploadContext, OpMakeCurrent True True]. \<not> is_SetSurfaceSize op"
    by simp
  have p: "(0::int) < 800" "(0::int) < 600" by simp_all
  from rendered_size_after_initialize [OF p v n, of example_glue]
  show ?thesis using v by simp
qed

subsection \<open>C9: a failed readback keeps the previous frame\<close>

text \<open>
  Claim C9. When \<^verbatim>\<open>glGetError\<close> reports an error after the readback,
  \<^verbatim>\<open>CaptureFramePixels\<close> leaves the staging buffer as it is, so
  \<^verbatim>\<open>CopyToPixelBuffer\<close> answers after the capture, and after the whole
  \<^verbatim>\<open>Present\<close>, what it answered before.
\<close>

theorem capture_failure_keeps_frame:
  assumes "readPixels_error drv \<noteq> GL_NO_ERROR"
  shows "m_pixelBuffer (CaptureFramePixels drv s) = m_pixelBuffer s \<and>
         CopyToPixelBuffer (CaptureFramePixels drv s) buffer bufferSize
           = CopyToPixelBuffer s buffer bufferSize \<and>
         CopyToPixelBuffer (fst (Present ctx drv (s, g))) buffer bufferSize
           = CopyToPixelBuffer s buffer bufferSize"
proof -
  have a: "m_pixelBuffer (CaptureFramePixels drv s) = m_pixelBuffer s"
    by (rule CaptureFramePixels_error [OF assms])
  have b: "m_pixelBuffer (fst (Present ctx drv (s, g))) = m_pixelBuffer s"
    by (simp add: Present_def Let_def CaptureFramePixels_error [OF assms]
          CheckPendingResize_pixelBuffer gpu_def)
  show ?thesis
    using a CopyToPixelBuffer_cong [OF a] CopyToPixelBuffer_cong [OF b] by simp
qed

text \<open>The theorem at a factory that holds a frame, with the error \<open>GL_INVALID_OPERATION\<close>.\<close>

theorem capture_failure_keeps_frame_witness:
  "readPixels_error (example_present GL_FRAMEBUFFER_COMPLETE [] 1282) \<noteq> GL_NO_ERROR \<and>
   m_pixelBuffer (CaptureFramePixels (example_present GL_FRAMEBUFFER_COMPLETE [] 1282)
      example_captured) = [5, 6, 7, 8, 1, 2, 3, 4]"
proof -
  have h: "readPixels_error (example_present GL_FRAMEBUFFER_COMPLETE [] 1282) \<noteq> GL_NO_ERROR"
    by (simp add: example_present_def GL_NO_ERROR_def)
  from capture_failure_keeps_frame [OF h, of example_captured]
  show ?thesis using h example_captured_buffer by simp
qed

subsection \<open>C10: the bounds of the copy\<close>

text \<open>
  Claim C10. With a captured frame (of less than \<open>2^31\<close> bytes), a positive size and a
  destination of at least that size, \<^verbatim>\<open>CopyToPixelBuffer\<close> returns true; with
  \<open>n\<close> the smaller of the size and the length of the frame, the first \<open>n\<close> bytes of the
  destination are the first \<open>n\<close> bytes of the frame and the rest of the destination is
  unchanged. It returns false, and leaves the destination alone, for a null destination and
  for a size that is not positive.
\<close>

theorem CopyToPixelBuffer_partial_copy:
  assumes "m_pixelBuffer s \<noteq> []" and "0 < bufferSize" and "nat bufferSize \<le> length dst"
    and "length (m_pixelBuffer s) < 2 ^ 31"
  shows "(\<exists>out. CopyToPixelBuffer s (Some dst) bufferSize = (True, Some out) \<and>
            length out = length dst \<and>
            take (min (nat bufferSize) (length (m_pixelBuffer s))) out
              = take (min (nat bufferSize) (length (m_pixelBuffer s))) (m_pixelBuffer s) \<and>
            drop (min (nat bufferSize) (length (m_pixelBuffer s))) out
              = drop (min (nat bufferSize) (length (m_pixelBuffer s))) dst) \<and>
         CopyToPixelBuffer s None k = (False, None) \<and>
         (if k \<le> 0 then CopyToPixelBuffer s (Some dst') k = (False, Some dst') else True)"
proof -
  let ?n = "min (nat bufferSize) (length (m_pixelBuffer s))"
  have cs: "nat (min bufferSize (size_to_int (length (m_pixelBuffer s)))) = ?n"
    using assms(2,4) by (simp add: size_to_int_small nat_min_int)
  have n1: "?n \<le> length dst" using assms(3) by simp
  have n2: "?n \<le> length (m_pixelBuffer s)" by simp
  let ?out = "memcpy dst 0 (m_pixelBuffer s) 0 ?n"
  have eq: "CopyToPixelBuffer s (Some dst) bufferSize = (True, Some ?out)"
    using assms(1,2) cs by (simp add: CopyToPixelBuffer_def Let_def)
  have "length ?out = length dst" using n1 n2 by (simp add: memcpy_def)
  moreover have "take ?n ?out = take ?n (m_pixelBuffer s)" using n1 n2 by (simp add: memcpy_def)
  moreover have "drop ?n ?out = drop ?n dst" using n1 n2 by (simp add: memcpy_def)
  ultimately have 1: "\<exists>out. CopyToPixelBuffer s (Some dst) bufferSize = (True, Some out) \<and>
            length out = length dst \<and> take ?n out = take ?n (m_pixelBuffer s) \<and>
            drop ?n out = drop ?n dst"
    using eq by blast
  have 2: "CopyToPixelBuffer s None k = (False, None)" by (simp add: CopyToPixelBuffer_def)
  have 3: "(if k \<le> 0 then CopyToPixelBuffer s (Some dst') k = (False, Some dst') else True)"
    by (simp add: CopyToPixelBuffer_def)
  show ?thesis using 1 2 3 by blast
qed

text \<open>The theorem at a frame of eight bytes and a destination of five with size four.\<close>

theorem CopyToPixelBuffer_partial_copy_witness:
  "m_pixelBuffer example_captured \<noteq> [] \<and> (0::int) < 4 \<and>
   nat 4 \<le> length [0, 0, 0, 0, 9 :: byte] \<and>
   CopyToPixelBuffer example_captured (Some [0, 0, 0, 0, 9]) 4 = (True, Some [5, 6, 7, 8, 9])"
proof -
  have h1: "m_pixelBuffer example_captured \<noteq> []" by (simp add: example_captured_buffer)
  have h2: "(0::int) < 4" by simp
  have h3: "nat 4 \<le> length [0, 0, 0, 0, 9 :: byte]" by simp
  have h4: "length (m_pixelBuffer example_captured) < 2 ^ 31" by (simp add: example_captured_buffer)
  let ?n = "min (nat 4) (length (m_pixelBuffer example_captured))"
  have "\<exists>out. CopyToPixelBuffer example_captured (Some [0, 0, 0, 0, 9]) 4 = (True, Some out) \<and>
          length out = length [0, 0, 0, 0, 9 :: byte] \<and>
          take ?n out = take ?n (m_pixelBuffer example_captured) \<and>
          drop ?n out = drop ?n [0, 0, 0, 0, 9]"
    using CopyToPixelBuffer_partial_copy [OF h1 h2 h3 h4] by blast
  then obtain out where
    o: "CopyToPixelBuffer example_captured (Some [0, 0, 0, 0, 9]) 4 = (True, Some out)"
    and t': "take ?n out = take ?n (m_pixelBuffer example_captured)"
    and d': "drop ?n out = drop ?n [0, 0, 0, 0, 9]"
    by blast
  have n: "?n = 4" by (simp add: example_captured_buffer)
  have t: "take 4 out = [5, 6, 7, 8]" using t' unfolding n by (simp add: example_captured_buffer)
  have d: "drop 4 out = [9]" using d' unfolding n by simp
  have "out = take 4 out @ drop 4 out" by simp
  then have "out = [5, 6, 7, 8, 9]" unfolding t d by simp
  then show ?thesis using o h1 by simp
qed

end
